theory Spec2Isabelle
  imports Complex_Main
begin

section \<open>Python values, exceptions and the interpreter's built-ins\<close>

text \<open>
  A wallclock value (\<^verbatim>\<open>datetime\<close>) is its number of microseconds since the epoch; the
  engine stores it with \<^verbatim>\<open>isoformat()\<close> and reads it back with \<^verbatim>\<open>fromisoformat\<close>, which
  is lossless, so a stored timestamp is identified with the value it encodes.
\<close>

type_synonym datetime = int

text \<open>
  The values a record field (\<^verbatim>\<open>Dict[str, Any]\<close>) or a response body can hold. A Python
  \<^verbatim>\<open>float\<close> is idealised as a real number.
\<close>

datatype pyval =
    PNone
  | PBool bool
  | PInt int
  | PFloat real
  | PStr string
  | PDatetime datetime
  | PList "pyval list"
  | PDict "(string \<times> pyval) list"

text \<open>
  The exception classes of \<^verbatim>\<open>api_client.py\<close> and \<^verbatim>\<open>schema_transformer.py\<close>, and the
  built-in ones the code can raise. \<^verbatim>\<open>RateLimitError\<close>, \<^verbatim>\<open>AuthenticationError\<close> and
  \<^verbatim>\<open>ValidationError\<close> are subclasses of \<^verbatim>\<open>APIError\<close>. The argument is the message; for an
  exception raised by a built-in of the interpreter it is the built-in's name only.
\<close>

datatype error =
    APIError string
  | RateLimitError string
  | AuthenticationError string
  | ValidationError string
  | TransformationError string
  | ValueError string
  | TypeError string
  | KeyError string
  | OtherError string

text \<open>\<^verbatim>\<open>str(e)\<close>; the text of a \<^verbatim>\<open>KeyError\<close> is the \<^verbatim>\<open>repr\<close> of the missing key.\<close>

fun error_str :: "error \<Rightarrow> string" where
  "error_str (APIError m) = m"
| "error_str (RateLimitError m) = m"
| "error_str (AuthenticationError m) = m"
| "error_str (ValidationError m) = m"
| "error_str (TransformationError m) = m"
| "error_str (ValueError m) = m"
| "error_str (TypeError m) = m"
| "error_str (KeyError k) = [CHR 0x27] @ k @ [CHR 0x27]"
| "error_str (OtherError m) = m"

text \<open>
  What the code takes from the interpreter and from \<^verbatim>\<open>dateutil\<close>, and this development
  takes as given: the text \<^verbatim>\<open>str()\<close> gives for a number, a wallclock value or a container,
  the reading of a non-blank text as an \<^verbatim>\<open>int\<close> or \<^verbatim>\<open>float\<close> literal (\<open>None\<close>: the
  conversion raises \<^verbatim>\<open>ValueError\<close>), \<^verbatim>\<open>datetime.isoformat\<close> and \<^verbatim>\<open>dateutil.parser.parse\<close>
  (\<open>None\<close>: it raises).
\<close>

record runtime =
  repr_of :: "pyval \<Rightarrow> string"
  int_literal :: "string \<Rightarrow> int option"
  float_literal :: "string \<Rightarrow> real option"
  isoformat :: "datetime \<Rightarrow> string"
  dateutil_parse :: "string \<Rightarrow> datetime option"

text \<open>Truth value of an object, as \<^verbatim>\<open>if x\<close> and \<^verbatim>\<open>bool(x)\<close> take it.\<close>

fun truthy :: "pyval \<Rightarrow> bool" where
  "truthy PNone = False"
| "truthy (PBool b) = b"
| "truthy (PInt i) = (i \<noteq> 0)"
| "truthy (PFloat r) = (r \<noteq> 0)"
| "truthy (PStr s) = (s \<noteq> [])"
| "truthy (PDatetime t) = True"
| "truthy (PList xs) = (xs \<noteq> [])"
| "truthy (PDict kvs) = (kvs \<noteq> [])"

fun py_str :: "runtime \<Rightarrow> pyval \<Rightarrow> string" where
  "py_str rt (PStr s) = s"
| "py_str rt PNone = ''None''"
| "py_str rt (PBool b) = (if b then ''True'' else ''False'')"
| "py_str rt v = repr_of rt v"

text \<open>Strings are ASCII: one \<open>char\<close> is one character.\<close>

definition is_space :: "char \<Rightarrow> bool" where
  "is_space c = (let n = (of_char c :: nat) in (9 \<le> n \<and> n \<le> 13) \<or> (28 \<le> n \<and> n \<le> 32))"

definition is_digit :: "char \<Rightarrow> bool" where
  "is_digit c = (let n = (of_char c :: nat) in 48 \<le> n \<and> n \<le> 57)"

definition is_alnum :: "char \<Rightarrow> bool" where
  "is_alnum c = (let n = (of_char c :: nat) in
     (48 \<le> n \<and> n \<le> 57) \<or> (65 \<le> n \<and> n \<le> 90) \<or> (97 \<le> n \<and> n \<le> 122))"

definition upper_char :: "char \<Rightarrow> char" where
  "upper_char c = (let n = (of_char c :: nat) in
     if 97 \<le> n \<and> n \<le> 122 then char_of (n - 32) else c)"

definition lower_char :: "char \<Rightarrow> char" where
  "lower_char c = (let n = (of_char c :: nat) in
     if 65 \<le> n \<and> n \<le> 90 then char_of (n + 32) else c)"

definition strip :: "string \<Rightarrow> string" where
  "strip s = rev (dropWhile is_space (rev (dropWhile is_space s)))"

text \<open>\<^verbatim>\<open>s.split('@')[-1]\<close>: the text after the last separator.\<close>

definition last_segment :: "char \<Rightarrow> string \<Rightarrow> string" where
  "last_segment sep s = rev (takeWhile (\<lambda>c. c \<noteq> sep) (rev s))"

text \<open>
  \<^verbatim>\<open>re.sub(r'<[^>]+>', '', s)\<close>: scanning from the left, a \<^verbatim>\<open><\<close> followed by at least one
  character other than \<^verbatim>\<open>>\<close> and then a \<^verbatim>\<open>>\<close> is dropped with everything in between.
\<close>

function sub_tags :: "string \<Rightarrow> string" where
  "sub_tags [] = []"
| "sub_tags (c # cs) =
     (if c = CHR ''<'' \<and> takeWhile (\<lambda>x. x \<noteq> CHR ''>'') cs \<noteq> []
         \<and> dropWhile (\<lambda>x. x \<noteq> CHR ''>'') cs \<noteq> []
      then sub_tags (tl (dropWhile (\<lambda>x. x \<noteq> CHR ''>'') cs))
      else c # sub_tags cs)"
  by pat_completeness auto
termination
proof (relation "measure length")
  show "wf (measure length)" by simp
next
  fix c :: char and cs :: string
  have "length (tl (dropWhile (\<lambda>x. x \<noteq> CHR ''>'') cs)) \<le> length cs"
    using length_dropWhile_le [of "\<lambda>x. x \<noteq> CHR ''>''" cs] by simp
  then show "(tl (dropWhile (\<lambda>x. x \<noteq> CHR ''>'') cs), c # cs) \<in> measure length"
    by simp
next
  fix c :: char and cs :: string
  show "(cs, c # cs) \<in> measure length" by simp
qed

text \<open>\<^verbatim>\<open>int(x)\<close> and \<^verbatim>\<open>float(x)\<close>. A blank text is no literal.\<close>

fun py_int :: "runtime \<Rightarrow> pyval \<Rightarrow> error + int" where
  "py_int rt (PBool b) = Inr (if b then 1 else 0)"
| "py_int rt (PInt i) = Inr i"
| "py_int rt (PFloat r) = Inr (if 0 \<le> r then \<lfloor>r\<rfloor> else \<lceil>r\<rceil>)"
| "py_int rt (PStr s) =
     (case (if strip s = [] then None else int_literal rt s) of
        None \<Rightarrow> Inl (ValueError ''int'')
      | Some i \<Rightarrow> Inr i)"
| "py_int rt v = Inl (TypeError ''int'')"

fun py_float :: "runtime \<Rightarrow> pyval \<Rightarrow> error + real" where
  "py_float rt (PBool b) = Inr (if b then 1 else 0)"
| "py_float rt (PInt i) = Inr (of_int i)"
| "py_float rt (PFloat r) = Inr r"
| "py_float rt (PStr s) =
     (case (if strip s = [] then None else float_literal rt s) of
        None \<Rightarrow> Inl (ValueError ''float'')
      | Some r \<Rightarrow> Inr r)"
| "py_float rt v = Inl (TypeError ''float'')"

section \<open>Schema transformer (\<^verbatim>\<open>schema_transformer.py\<close>)\<close>

text \<open>A transformer is a callable on one value; \<open>Inl\<close> is the exception it raises.\<close>

type_synonym transformer = "pyval \<Rightarrow> error + pyval"

definition to_upper :: "runtime \<Rightarrow> transformer" where
  "to_upper rt x = Inr (if truthy x then PStr (map upper_char (py_str rt x)) else PNone)"

definition to_lower :: "runtime \<Rightarrow> transformer" where
  "to_lower rt x = Inr (if truthy x then PStr (map lower_char (py_str rt x)) else PNone)"

definition to_string :: "runtime \<Rightarrow> transformer" where
  "to_string rt x = Inr (if x \<noteq> PNone then PStr (py_str rt x) else PNone)"

definition to_int :: "runtime \<Rightarrow> transformer" where
  "to_int rt x =
     (if x \<noteq> PNone then (case py_int rt x of Inl e \<Rightarrow> Inl e | Inr i \<Rightarrow> Inr (PInt i))
      else Inr PNone)"

definition to_float :: "runtime \<Rightarrow> transformer" where
  "to_float rt x =
     (if x \<noteq> PNone then (case py_float rt x of Inl e \<Rightarrow> Inl e | Inr r \<Rightarrow> Inr (PFloat r))
      else Inr PNone)"

definition to_bool :: "transformer" where
  "to_bool x = Inr (if x \<noteq> PNone then PBool (truthy x) else PNone)"

definition truncate_255 :: "runtime \<Rightarrow> transformer" where
  "truncate_255 rt x = Inr (if truthy x then PStr (take 255 (py_str rt x)) else PNone)"

definition format_phone :: "runtime \<Rightarrow> transformer" where
  "format_phone rt phone =
     (if \<not> truthy phone then Inr PNone
      else let phone_str = strip (py_str rt phone);
               digits = filter is_digit phone_str
           in if length digits = 10 then Inr (PStr (''+1'' @ digits))
              else if length digits = 11 \<and> take 1 digits = ''1'' then Inr (PStr (''+'' @ digits))
              else Inr (PStr phone_str))"

definition format_email :: "runtime \<Rightarrow> transformer" where
  "format_email rt email =
     (if \<not> truthy email then Inr PNone
      else let email_str = map lower_char (strip (py_str rt email))
           in if CHR ''@'' \<in> set email_str \<and> CHR ''.'' \<in> set (last_segment CHR ''@'' email_str)
              then Inr (PStr email_str)
              else Inr PNone)"

definition format_date :: "runtime \<Rightarrow> transformer" where
  "format_date rt date_value =
     (if \<not> truthy date_value then Inr PNone
      else case date_value of
             PDatetime t \<Rightarrow> Inr (PStr (isoformat rt t))
           | PStr s \<Rightarrow> (case dateutil_parse rt s of
                          Some parsed_date \<Rightarrow> Inr (PStr (isoformat rt parsed_date))
                        | None \<Rightarrow> Inr date_value)
           | _ \<Rightarrow> Inr (PStr (py_str rt date_value)))"

definition clean_html :: "runtime \<Rightarrow> transformer" where
  "clean_html rt html =
     (if \<not> truthy html then Inr PNone
      else Inr (PStr (strip (sub_tags (py_str rt html)))))"

definition remove_special_chars :: "runtime \<Rightarrow> transformer" where
  "remove_special_chars rt text =
     (if \<not> truthy text then Inr PNone
      else Inr (PStr (strip (filter (\<lambda>c. is_alnum c \<or> is_space c) (py_str rt text)))))"

text \<open>The registry \<^verbatim>\<open>self.transformers\<close> as \<^verbatim>\<open>__init__\<close> builds it.\<close>

definition transformers :: "runtime \<Rightarrow> string \<rightharpoonup> transformer" where
  "transformers rt = map_of
     [(''to_upper'', to_upper rt),
      (''to_lower'', to_lower rt),
      (''to_string'', to_string rt),
      (''to_int'', to_int rt),
      (''to_float'', to_float rt),
      (''to_bool'', to_bool),
      (''format_phone'', format_phone rt),
      (''format_email'', format_email rt),
      (''format_date'', format_date rt),
      (''clean_html'', clean_html rt),
      (''truncate_255'', truncate_255 rt),
      (''remove_special_chars'', remove_special_chars rt)]"

text \<open>The names of the built-in transformers.\<close>

definition builtin_names :: "string list" where
  "builtin_names =
     [''to_upper'', ''to_lower'', ''to_string'', ''to_int'', ''to_float'', ''to_bool'',
      ''format_phone'', ''format_email'', ''format_date'', ''clean_html'', ''truncate_255'',
      ''remove_special_chars'']"

text \<open>\<^verbatim>\<open>add_transformer\<close>.\<close>

definition add_transformer ::
  "(string \<rightharpoonup> transformer) \<Rightarrow> string \<Rightarrow> transformer \<Rightarrow> (string \<rightharpoonup> transformer)" where
  "add_transformer reg name func = reg(name \<mapsto> func)"

text \<open>
  \<^verbatim>\<open>transform_value\<close>: an unknown name raises \<^verbatim>\<open>TransformationError\<close>; whatever the
  callable raises is wrapped into one.
\<close>

definition transform_value ::
  "(string \<rightharpoonup> transformer) \<Rightarrow> pyval \<Rightarrow> string \<Rightarrow> error + pyval" where
  "transform_value reg v transformer_name =
     (case reg transformer_name of
        None \<Rightarrow> Inl (TransformationError (''Unknown transformer: '' @ transformer_name))
      | Some f \<Rightarrow>
          (case f v of
             Inr y \<Rightarrow> Inr y
           | Inl e \<Rightarrow> Inl (TransformationError
               (''Transformation '' @ [CHR 0x27] @ transformer_name @ [CHR 0x27]
                  @ '' failed: '' @ error_str e))))"

record SchemaMapping =
  internal_field :: string
  external_field :: string
  transformer :: "string option"
  required :: bool

record RecordData =
  rd_id :: "string option"
  data :: "string \<rightharpoonup> pyval"
  schema_version :: string

text \<open>\<^verbatim>\<open>d.get(k)\<close>: \<^verbatim>\<open>None\<close> for a missing key.\<close>

definition dict_get :: "(string \<rightharpoonup> pyval) \<Rightarrow> string \<Rightarrow> pyval" where
  "dict_get d k = (case d k of None \<Rightarrow> PNone | Some v \<Rightarrow> v)"

definition source_field :: "string \<Rightarrow> SchemaMapping \<Rightarrow> string" where
  "source_field direction m =
     (if direction = ''internal_to_external'' then internal_field m else external_field m)"

definition target_field :: "string \<Rightarrow> SchemaMapping \<Rightarrow> string" where
  "target_field direction m =
     (if direction = ''internal_to_external'' then external_field m else internal_field m)"

text \<open>
  The loop of \<^verbatim>\<open>transform_record\<close> over the mappings, with \<^verbatim>\<open>output_data\<close> as
  accumulator. A name that is \<^verbatim>\<open>None\<close> or empty is no transformer
  (\<^verbatim>\<open>if mapping.transformer and ...\<close>).
\<close>

fun transform_loop ::
  "(string \<rightharpoonup> transformer) \<Rightarrow> (string \<rightharpoonup> pyval) \<Rightarrow> string \<Rightarrow> SchemaMapping list
     \<Rightarrow> (string \<rightharpoonup> pyval) \<Rightarrow> error + (string \<rightharpoonup> pyval)" where
  "transform_loop reg input_data direction [] output_data = Inr output_data"
| "transform_loop reg input_data direction (m # ms) output_data =
     (let source_value = dict_get input_data (source_field direction m) in
      if required m \<and> source_value = PNone
      then Inl (TransformationError
             (''Required field '' @ [CHR 0x27] @ source_field direction m @ [CHR 0x27]
                @ '' is missing''))
      else
        (case (if (case transformer m of None \<Rightarrow> False | Some t \<Rightarrow> t \<noteq> [])
                   \<and> source_value \<noteq> PNone
               then transform_value reg source_value (case transformer m of None \<Rightarrow> [] | Some t \<Rightarrow> t)
               else Inr source_value) of
           Inl e \<Rightarrow>
             (if required m then Inl e
              else transform_loop reg input_data direction ms output_data)
         | Inr transformed_value \<Rightarrow>
             transform_loop reg input_data direction ms
               (if transformed_value \<noteq> PNone
                then output_data(target_field direction m \<mapsto> transformed_value)
                else output_data)))"

definition transform_record ::
  "(string \<rightharpoonup> transformer) \<Rightarrow> RecordData \<Rightarrow> SchemaMapping list \<Rightarrow> string
     \<Rightarrow> error + (string \<rightharpoonup> pyval)" where
  "transform_record reg record_data mappings direction =
     transform_loop reg (data record_data) direction mappings Map.empty"

section \<open>Token bucket and rate limiter manager (\<^verbatim>\<open>rate_limiter.py\<close>)\<close>

subsection \<open>Floating-point numbers\<close>

text \<open>
  A Python \<^verbatim>\<open>float\<close> and a number of the Lua script are IEEE 754 binary64 values. The
  model takes such a value as the real number it denotes, and every arithmetic
  operation as the exact operation followed by \<open>binary64\<close>, the rounding to the nearest
  value with a significand of 53 bits, a tie going to the even significand; below
  \<open>2 ^ - 1022\<close> the spacing stays \<open>2 ^ - 1074\<close>. Infinities, NaN, the sign of zero
  and magnitudes beyond the largest finite value are not part of the model. The decimal
  texts that carry a number between Python, the script and the store (\<^verbatim>\<open>repr\<close>,
  \<^verbatim>\<open>tonumber\<close>, the 17 significant digits of the store) give back the value they were
  written from.
\<close>

text \<open>The number of binary digits of a natural number.\<close>

fun bit_length :: "nat \<Rightarrow> nat" where
  "bit_length n = (if n = 0 then 0 else Suc (bit_length (n div 2)))"

declare bit_length.simps [simp del]

definition pow2 :: "int \<Rightarrow> real" where
  "pow2 k = (if 0 \<le> k then 2 ^ nat k else 1 / 2 ^ nat (- k))"

text \<open>The binary exponent \<open>e\<close> of a positive \<open>x\<close>: \<open>2 ^ e \<le> x < 2 ^ (e + 1)\<close>.\<close>

definition exponent :: "real \<Rightarrow> int" where
  "exponent x =
     (if 1 \<le> x then int (bit_length (nat \<lfloor>x\<rfloor>)) - 1
      else - int (bit_length (nat (\<lceil>1 / x\<rceil> - 1))))"

definition round_half_even :: "real \<Rightarrow> int" where
  "round_half_even y =
     (if y - of_int \<lfloor>y\<rfloor> < 1 / 2 then \<lfloor>y\<rfloor>
      else if 1 / 2 < y - of_int \<lfloor>y\<rfloor> then \<lfloor>y\<rfloor> + 1
      else if even \<lfloor>y\<rfloor> then \<lfloor>y\<rfloor>
      else \<lfloor>y\<rfloor> + 1)"

definition binary64 :: "real \<Rightarrow> real" where
  "binary64 x =
     (if x = 0 then 0
      else of_int (round_half_even (x / pow2 (max (exponent \<bar>x\<bar>) (- 1022) - 52)))
             * pow2 (max (exponent \<bar>x\<bar>) (- 1022) - 52))"

subsection \<open>The bucket\<close>

text \<open>The rate is a \<^verbatim>\<open>float\<close>, in tokens per second.\<close>

record TokenBucket =
  capacity :: int
  refill_rate :: real
  key_prefix :: string

text \<open>The hash stored under a bucket key; both fields are always written together.\<close>

record bucket_fields =
  tokens :: real
  last_refill :: real

text \<open>
  \<^verbatim>\<open>TokenBucket.consume\<close> at the reading \<open>current_time\<close> of \<^verbatim>\<open>time.time()\<close>: the script
  runs atomically on the store, so it is a function from the store before to the answer
  and the store after. A missing (or expired) key reads as \<^verbatim>\<open>nil\<close> in both fields. The
  capacity and the number of tokens asked for reach the script as decimal texts and
  become numbers by \<^verbatim>\<open>tonumber\<close>.
\<close>

definition consume ::
  "TokenBucket \<Rightarrow> (string \<rightharpoonup> bucket_fields) \<Rightarrow> string \<Rightarrow> int \<Rightarrow> real
     \<Rightarrow> bool \<times> (string \<rightharpoonup> bucket_fields)" where
  "consume b store provider tokens_requested current_time =
     (let bucket_key = key_prefix b @ '':'' @ provider;
          cap = binary64 (of_int (capacity b));
          requested = binary64 (of_int tokens_requested);
          current_tokens = (case store bucket_key of None \<Rightarrow> cap | Some f \<Rightarrow> tokens f);
          last = (case store bucket_key of None \<Rightarrow> current_time | Some f \<Rightarrow> last_refill f);
          time_elapsed = binary64 (current_time - last);
          tokens_to_add = of_int \<lfloor>binary64 (time_elapsed * refill_rate b)\<rfloor>;
          refilled = min cap (binary64 (current_tokens + tokens_to_add))
      in if refilled \<ge> requested
         then (True, store(bucket_key \<mapsto>
                 \<lparr>tokens = binary64 (refilled - requested), last_refill = current_time\<rparr>))
         else (False, store(bucket_key \<mapsto> \<lparr>tokens = refilled, last_refill = current_time\<rparr>)))"

text \<open>
  The bucket \<^verbatim>\<open>RateLimiterManager.add_provider\<close> builds, with the rate
  \<^verbatim>\<open>rate_limit_per_minute / 60.0\<close>, and the registration.
\<close>

definition provider_bucket :: "string \<Rightarrow> int \<Rightarrow> int \<Rightarrow> TokenBucket" where
  "provider_bucket provider rate_limit_per_minute burst_limit =
     \<lparr>capacity = burst_limit,
      refill_rate = binary64 (binary64 (of_int rate_limit_per_minute) / 60),
      key_prefix = ''rate_limit:'' @ provider\<rparr>"

definition rl_add_provider ::
  "(string \<rightharpoonup> TokenBucket) \<Rightarrow> string \<Rightarrow> int \<Rightarrow> int \<Rightarrow> (string \<rightharpoonup> TokenBucket)" where
  "rl_add_provider limiters provider rate_limit_per_minute burst_limit =
     limiters(provider \<mapsto> provider_bucket provider rate_limit_per_minute burst_limit)"

definition rl_remove_provider :: "(string \<rightharpoonup> TokenBucket) \<Rightarrow> string \<Rightarrow> (string \<rightharpoonup> TokenBucket)" where
  "rl_remove_provider limiters provider = limiters(provider := None)"

definition can_make_request ::
  "(string \<rightharpoonup> TokenBucket) \<Rightarrow> (string \<rightharpoonup> bucket_fields) \<Rightarrow> string \<Rightarrow> int \<Rightarrow> real
     \<Rightarrow> bool \<times> (string \<rightharpoonup> bucket_fields)" where
  "can_make_request limiters store provider n current_time =
     (case limiters provider of
        None \<Rightarrow> (True, store)
      | Some limiter \<Rightarrow> consume limiter store provider n current_time)"

text \<open>
  The acquire algorithm as the specification words it, for comparison with \<open>consume\<close>:
  the refill is the exact product of the elapsed time and the rate, in real numbers.
\<close>

definition spec_acquire ::
  "int \<Rightarrow> int \<Rightarrow> bucket_fields option \<Rightarrow> int \<Rightarrow> real \<Rightarrow> bool \<times> bucket_fields" where
  "spec_acquire cap rate_per_minute state n now =
     (let st = (case state of None \<Rightarrow> \<lparr>tokens = of_int cap, last_refill = now\<rparr> | Some f \<Rightarrow> f);
          elapsed = now - last_refill st;
          refilled = min (of_int cap) (tokens st + elapsed * (of_int rate_per_minute / 60))
      in if refilled \<ge> of_int n
         then (True, \<lparr>tokens = refilled - of_int n, last_refill = now\<rparr>)
         else (False, \<lparr>tokens = refilled, last_refill = now\<rparr>))"

section \<open>Models (\<^verbatim>\<open>models.py\<close>)\<close>

datatype OperationType = CREATE | READ | UPDATE | DELETE

datatype SyncStatus = PENDING | PROCESSING | COMPLETED | FAILED | RETRYING

datatype ProviderType = SALESFORCE | HUBSPOT | PIPEDRIVE | CUSTOM

fun provider_type_value :: "ProviderType \<Rightarrow> string" where
  "provider_type_value SALESFORCE = ''salesforce''"
| "provider_type_value HUBSPOT = ''hubspot''"
| "provider_type_value PIPEDRIVE = ''pipedrive''"
| "provider_type_value CUSTOM = ''custom''"

record AuthConfig =
  auth_type :: string
  credentials :: "(string \<times> pyval) list"
  token_url :: "string option"
  refresh_token :: "string option"

record ProviderConfig =
  name :: string
  provider_type :: ProviderType
  base_url :: string
  rate_limit_per_minute :: int
  burst_limit :: int
  timeout_seconds :: int
  max_retries :: int
  auth_config :: AuthConfig

text \<open>\<^verbatim>\<open>SyncOperation\<close>; the identifier is the text of the UUID.\<close>

record SyncOperation =
  op_id :: string
  operation :: OperationType
  provider :: string
  record_id :: "string option"
  record_data :: "RecordData option"
  priority :: int
  created_at :: datetime
  scheduled_at :: "datetime option"

text \<open>
  The dictionary the engine keeps for an operation: the keys \<^verbatim>\<open>submit_operation\<close> writes,
  and those the worker adds (\<open>None\<close>: the key is absent or null, which every read with
  \<^verbatim>\<open>.get\<close> treats alike). The body of a response is a JSON object.

  A queue entry is the \<^verbatim>\<open>json.dumps\<close> text of such a dictionary. The text determines the
  dictionary and, for the dictionaries the engine writes, the dictionary the text, so an
  entry is identified with the dictionary it encodes: \<^verbatim>\<open>json.loads\<close> and \<^verbatim>\<open>json.dumps\<close>
  are the identity.
\<close>

type_synonym response = "(string \<times> pyval) list"

record op_dict = SyncOperation +
  retry_count :: "nat option"
  started_at :: "datetime option"
  completed_at :: "datetime option"
  response_data :: "response option"
  external_id :: "pyval option"
  error_message :: "string option"

record SyncResult =
  sr_operation_id :: string
  sr_status :: SyncStatus
  sr_provider :: string
  sr_external_id :: "pyval option"
  sr_started_at :: "datetime option"
  sr_completed_at :: "datetime option"
  sr_error_message :: "string option"
  sr_retry_count :: nat
  sr_response_data :: "response option"

text \<open>
  \<^verbatim>\<open>get_default_mappings\<close>. \<^verbatim>\<open>SchemaMapping.required\<close> defaults to \<^verbatim>\<open>True\<close>, so every
  mapping built without the keyword is required.
\<close>

definition mk_mapping :: "string \<Rightarrow> string \<Rightarrow> string option \<Rightarrow> SchemaMapping" where
  "mk_mapping i e t = \<lparr>internal_field = i, external_field = e, transformer = t, required = True\<rparr>"

definition get_default_mappings :: "string \<Rightarrow> SchemaMapping list" where
  "get_default_mappings p =
     (if p = ''salesforce'' then
        [mk_mapping ''first_name'' ''FirstName'' None,
         mk_mapping ''last_name'' ''LastName'' None,
         mk_mapping ''email'' ''Email'' (Some ''format_email''),
         mk_mapping ''phone'' ''Phone'' (Some ''format_phone''),
         mk_mapping ''company_id'' ''AccountId'' None,
         mk_mapping ''title'' ''Title'' None]
      else if p = ''hubspot'' then
        [mk_mapping ''first_name'' ''firstname'' None,
         mk_mapping ''last_name'' ''lastname'' None,
         mk_mapping ''email'' ''email'' (Some ''format_email''),
         mk_mapping ''phone'' ''phone'' (Some ''format_phone''),
         mk_mapping ''company_name'' ''company'' None,
         mk_mapping ''title'' ''jobtitle'' None]
      else if p = ''pipedrive'' then
        [mk_mapping ''full_name'' ''name'' None,
         mk_mapping ''email'' ''email'' (Some ''format_email''),
         mk_mapping ''phone'' ''phone'' (Some ''format_phone''),
         mk_mapping ''organization_id'' ''org_id'' (Some ''to_int'')]
      else [])"

section \<open>Dispatch client (\<^verbatim>\<open>api_client.py\<close>)\<close>

text \<open>
  What one iteration of a worker takes from outside the engine: the readings of
  \<^verbatim>\<open>datetime.utcnow()\<close>, in the order the code takes them (at the \<^verbatim>\<open>scheduled_at\<close> gate,
  for \<^verbatim>\<open>started_at\<close>, for \<^verbatim>\<open>completed_at\<close>, for the retry schedule, for the metrics
  key); what opening the client (\<^verbatim>\<open>__aenter__\<close>, which authenticates) raises, if anything;
  and the outcome of \<^verbatim>\<open>_make_request\<close> (admission by the rate limiter, authentication
  headers and the HTTP exchange) for a method, an endpoint and a body.
\<close>

record env =
  utcnow_gate :: datetime
  utcnow_started :: datetime
  utcnow_completed :: datetime
  utcnow_retry :: datetime
  utcnow_metrics :: datetime
  client_open :: "ProviderConfig \<Rightarrow> error option"
  make_request ::
    "ProviderConfig \<Rightarrow> string \<Rightarrow> string \<Rightarrow> (string \<rightharpoonup> pyval) option \<Rightarrow> error + response"

definition is_api_error :: "error \<Rightarrow> bool" where
  "is_api_error e =
     (case e of
        APIError m \<Rightarrow> True
      | RateLimitError m \<Rightarrow> True
      | AuthenticationError m \<Rightarrow> True
      | ValidationError m \<Rightarrow> True
      | _ \<Rightarrow> False)"

definition create_record :: "runtime \<Rightarrow> env \<Rightarrow> ProviderConfig \<Rightarrow> RecordData \<Rightarrow> error + response" where
  "create_record rt ev cfg rd =
     (case transform_record (transformers rt) rd
             (get_default_mappings (provider_type_value (provider_type cfg)))
             ''internal_to_external'' of
        Inl e \<Rightarrow> Inl e
      | Inr transformed_data \<Rightarrow>
          make_request ev cfg ''POST''
            (if provider_type_value (provider_type cfg) = ''salesforce''
               then ''/services/data/v52.0/sobjects/Contact''
             else if provider_type_value (provider_type cfg) = ''hubspot''
               then ''/crm/v3/objects/contacts''
             else if provider_type_value (provider_type cfg) = ''pipedrive''
               then ''/v1/persons''
             else ''/contacts'')
            (Some transformed_data))"

text \<open>The endpoint of one record, shared by read, update and delete.\<close>

definition record_endpoint :: "ProviderConfig \<Rightarrow> string \<Rightarrow> string" where
  "record_endpoint cfg rid =
     (if provider_type_value (provider_type cfg) = ''salesforce''
        then ''/services/data/v52.0/sobjects/Contact/'' @ rid
      else if provider_type_value (provider_type cfg) = ''hubspot''
        then ''/crm/v3/objects/contacts/'' @ rid
      else if provider_type_value (provider_type cfg) = ''pipedrive''
        then ''/v1/persons/'' @ rid
      else ''/contacts/'' @ rid)"

definition read_record :: "env \<Rightarrow> ProviderConfig \<Rightarrow> string \<Rightarrow> error + response" where
  "read_record ev cfg rid = make_request ev cfg ''GET'' (record_endpoint cfg rid) None"

definition update_record ::
  "runtime \<Rightarrow> env \<Rightarrow> ProviderConfig \<Rightarrow> string \<Rightarrow> RecordData \<Rightarrow> error + response" where
  "update_record rt ev cfg rid rd =
     (case transform_record (transformers rt) rd
             (get_default_mappings (provider_type_value (provider_type cfg)))
             ''internal_to_external'' of
        Inl e \<Rightarrow> Inl e
      | Inr transformed_data \<Rightarrow>
          make_request ev cfg
            (if provider_type_value (provider_type cfg) = ''salesforce'' then ''PATCH''
             else if provider_type_value (provider_type cfg) = ''hubspot'' then ''PATCH''
             else ''PUT'')
            (record_endpoint cfg rid)
            (Some transformed_data))"

definition delete_record :: "env \<Rightarrow> ProviderConfig \<Rightarrow> string \<Rightarrow> error + response" where
  "delete_record ev cfg rid = make_request ev cfg ''DELETE'' (record_endpoint cfg rid) None"

text \<open>
  The keyword arguments \<^verbatim>\<open>_process_operation\<close> passes on: a key is present only when the
  entry holds a truthy value for it.
\<close>

record kwargs =
  kw_record_id :: "string option"
  kw_record_data :: "RecordData option"

text \<open>\<^verbatim>\<open>execute_operation\<close>: \<^verbatim>\<open>kwargs["record_id"]\<close> raises \<^verbatim>\<open>KeyError\<close> for a missing key.\<close>

fun execute_operation ::
  "runtime \<Rightarrow> env \<Rightarrow> ProviderConfig \<Rightarrow> OperationType \<Rightarrow> kwargs \<Rightarrow> error + response" where
  "execute_operation rt ev cfg CREATE kw =
     (case kw_record_data kw of
        None \<Rightarrow> Inl (KeyError ''record_data'')
      | Some rd \<Rightarrow> create_record rt ev cfg rd)"
| "execute_operation rt ev cfg READ kw =
     (case kw_record_id kw of
        None \<Rightarrow> Inl (KeyError ''record_id'')
      | Some rid \<Rightarrow> read_record ev cfg rid)"
| "execute_operation rt ev cfg UPDATE kw =
     (case kw_record_id kw of
        None \<Rightarrow> Inl (KeyError ''record_id'')
      | Some rid \<Rightarrow>
          (case kw_record_data kw of
             None \<Rightarrow> Inl (KeyError ''record_data'')
           | Some rd \<Rightarrow> update_record rt ev cfg rid rd))"
| "execute_operation rt ev cfg DELETE kw =
     (case kw_record_id kw of
        None \<Rightarrow> Inl (KeyError ''record_id'')
      | Some rid \<Rightarrow> delete_record ev cfg rid)"

section \<open>Sync engine (\<^verbatim>\<open>sync_engine.py\<close>)\<close>

subsection \<open>The backing store\<close>

text \<open>
  A sorted set is the list of its members with their scores, each member once. The
  list order carries no meaning of its own.
\<close>

type_synonym zset = "(op_dict \<times> int) list"

definition zrem :: "zset \<Rightarrow> op_dict \<Rightarrow> zset" where
  "zrem zs member = filter (\<lambda>ms. fst ms \<noteq> member) zs"

definition zadd :: "zset \<Rightarrow> op_dict \<Rightarrow> int \<Rightarrow> zset" where
  "zadd zs member score = zrem zs member @ [(member, score)]"

definition zrange :: "zset \<Rightarrow> op_dict list" where
  "zrange zs = map fst (sort_key snd zs)"

text \<open>
  The entry with the least score. Among entries of equal score the store takes the
  least member in byte order, which an entry identified with its dictionary does not
  have: here it is the first of them in the list.
\<close>

fun zmin :: "zset \<Rightarrow> (op_dict \<times> int) option" where
  "zmin [] = None"
| "zmin (x # zs) =
     (case zmin zs of
        None \<Rightarrow> Some x
      | Some y \<Rightarrow> if snd x \<le> snd y then Some x else Some y)"

definition bzpopmin :: "zset \<Rightarrow> ((op_dict \<times> int) \<times> zset) option" where
  "bzpopmin zs = (case zmin zs of None \<Rightarrow> None | Some x \<Rightarrow> Some (x, zrem zs (fst x)))"

text \<open>
  The engine with the keys of the store it uses: the five queues and the counters,
  which are keyed by hour and name; a counter that does not exist reads 0. The expiry
  of the counter keys is not part of the model.
\<close>

record engine =
  providers :: "string \<rightharpoonup> ProviderConfig"
  limiters :: "string \<rightharpoonup> TokenBucket"
  pending :: zset
  processing :: zset
  completed :: "op_dict list"
  failed :: "op_dict list"
  dlq :: "op_dict list"
  metrics :: "int \<times> string \<Rightarrow> int"

text \<open>\<^verbatim>\<open>SyncEngine.__init__\<close> on an empty store.\<close>

definition new_engine :: engine where
  "new_engine =
     \<lparr>providers = Map.empty, limiters = Map.empty, pending = [], processing = [],
      completed = [], failed = [], dlq = [], metrics = (\<lambda>k. 0)\<rparr>"

definition PENDING_QUEUE :: string where "PENDING_QUEUE = ''sync:pending''"
definition PROCESSING_QUEUE :: string where "PROCESSING_QUEUE = ''sync:processing''"
definition COMPLETED_QUEUE :: string where "COMPLETED_QUEUE = ''sync:completed''"
definition FAILED_QUEUE :: string where "FAILED_QUEUE = ''sync:failed''"
definition DLQ :: string where "DLQ = ''sync:dlq''"

text \<open>\<^verbatim>\<open>strftime("%Y-%m-%d-%H")\<close> names the hour a time falls in.\<close>

definition current_hour :: "datetime \<Rightarrow> int" where
  "current_hour t = t div 3600000000"

definition update_metrics :: "engine \<Rightarrow> datetime \<Rightarrow> string \<Rightarrow> int \<Rightarrow> engine" where
  "update_metrics st now metric_name v =
     st\<lparr>metrics := (metrics st)
          ((current_hour now, metric_name) := metrics st (current_hour now, metric_name) + v)\<rparr>"

subsection \<open>Providers and submission\<close>

definition add_provider :: "engine \<Rightarrow> ProviderConfig \<Rightarrow> engine" where
  "add_provider st config =
     st\<lparr>providers := (providers st)(name config \<mapsto> config),
        limiters := rl_add_provider (limiters st) (name config)
                      (rate_limit_per_minute config) (burst_limit config)\<rparr>"

definition remove_provider :: "engine \<Rightarrow> string \<Rightarrow> engine" where
  "remove_provider st provider_name =
     (if provider_name \<in> dom (providers st)
      then st\<lparr>providers := (providers st)(provider_name := None),
              limiters := rl_remove_provider (limiters st) provider_name\<rparr>
      else st)"

text \<open>The dictionary \<^verbatim>\<open>submit_operation\<close> serializes.\<close>

definition operation_data_of :: "SyncOperation \<Rightarrow> op_dict" where
  "operation_data_of op =
     \<lparr>op_id = op_id op, operation = operation op, provider = provider op,
      record_id = record_id op, record_data = record_data op, priority = priority op,
      created_at = created_at op, scheduled_at = scheduled_at op,
      retry_count = None, started_at = None, completed_at = None, response_data = None,
      external_id = None, error_message = None\<rparr>"

text \<open>
  \<^verbatim>\<open>submit_operation\<close>, at the time \<open>now\<close> that names the metrics key. The engine is
  returned with the outcome, also when the call raises.
\<close>

definition submit_operation ::
  "engine \<Rightarrow> datetime \<Rightarrow> SyncOperation \<Rightarrow> (error + string) \<times> engine" where
  "submit_operation st now op =
     (if provider op \<notin> dom (providers st)
      then (Inl (ValueError (''Unknown provider: '' @ provider op)), st)
      else
        (Inr (op_id op),
         update_metrics
           (st\<lparr>pending := zadd (pending st) (operation_data_of op) (priority op)\<rparr>)
           now ''operations_submitted'' 1))"

subsection \<open>Status query\<close>

definition status_mapping :: "string \<Rightarrow> SyncStatus" where
  "status_mapping queue_name =
     (case map_of
             [(PENDING_QUEUE, PENDING),
              (PROCESSING_QUEUE, PROCESSING),
              (COMPLETED_QUEUE, COMPLETED),
              (FAILED_QUEUE, FAILED),
              (DLQ, FAILED)] queue_name of
        None \<Rightarrow> PENDING
      | Some s \<Rightarrow> s)"

text \<open>\<^verbatim>\<open>data.get("retry_count", 0)\<close>.\<close>

definition retry_count_of :: "op_dict \<Rightarrow> nat" where
  "retry_count_of d = (case retry_count d of None \<Rightarrow> 0 | Some n \<Rightarrow> n)"

definition deserialize_sync_result :: "op_dict \<Rightarrow> string \<Rightarrow> SyncResult" where
  "deserialize_sync_result d queue_name =
     \<lparr>sr_operation_id = op_id d,
      sr_status = status_mapping queue_name,
      sr_provider = provider d,
      sr_external_id = external_id d,
      sr_started_at = started_at d,
      sr_completed_at = completed_at d,
      sr_error_message = error_message d,
      sr_retry_count = retry_count_of d,
      sr_response_data = response_data d\<rparr>"

text \<open>The two nested loops of \<^verbatim>\<open>get_operation_status\<close>: the first match returns.\<close>

fun scan_queues :: "string \<Rightarrow> (string \<times> op_dict list) list \<Rightarrow> SyncResult option" where
  "scan_queues operation_id [] = None"
| "scan_queues operation_id ((queue_name, items) # queues) =
     (case find (\<lambda>d. op_id d = operation_id) items of
        Some d \<Rightarrow> Some (deserialize_sync_result d queue_name)
      | None \<Rightarrow> scan_queues operation_id queues)"

definition get_operation_status :: "engine \<Rightarrow> string \<Rightarrow> SyncResult option" where
  "get_operation_status st operation_id =
     scan_queues operation_id
       [(PENDING_QUEUE, zrange (pending st)),
        (PROCESSING_QUEUE, zrange (processing st)),
        (COMPLETED_QUEUE, completed st),
        (FAILED_QUEUE, failed st),
        (DLQ, dlq st)]"

subsection \<open>Workers\<close>

text \<open>
  The text \<^verbatim>\<open>_process_operation\<close> stores in \<^verbatim>\<open>error_message\<close>: the first two handlers
  catch \<^verbatim>\<open>APIError\<close> and its subclasses, the last one everything else.
\<close>

definition error_message_of :: "error \<Rightarrow> string" where
  "error_message_of e =
     (if is_api_error e then error_str e else ''Unexpected error: '' @ error_str e)"

text \<open>The \<^verbatim>\<open>scheduled_at\<close> gate at the head of \<^verbatim>\<open>_process_operation\<close>.\<close>

definition scheduled_for_future :: "env \<Rightarrow> op_dict \<Rightarrow> bool" where
  "scheduled_for_future ev d =
     (case scheduled_at d of None \<Rightarrow> False | Some scheduled_time \<Rightarrow> utcnow_gate ev < scheduled_time)"

definition kwargs_of :: "op_dict \<Rightarrow> kwargs" where
  "kwargs_of d =
     \<lparr>kw_record_id = (case record_id d of None \<Rightarrow> None | Some r \<Rightarrow> if r \<noteq> [] then Some r else None),
      kw_record_data = record_data d\<rparr>"

text \<open>
  The dispatch: the body of the \<^verbatim>\<open>try\<close> block of \<^verbatim>\<open>_process_operation\<close> after the
  gate. It returns the dictionary as the attempt leaves it and the response, or the
  exception that ends the attempt.
\<close>

definition dispatch ::
  "runtime \<Rightarrow> (string \<rightharpoonup> ProviderConfig) \<Rightarrow> env \<Rightarrow> op_dict \<Rightarrow> op_dict \<times> (error + response)" where
  "dispatch rt provs ev d =
     (case provs (provider d) of
        None \<Rightarrow> (d, Inl (ValueError (''Provider not configured: '' @ provider d)))
      | Some provider_config \<Rightarrow>
          (let d1 = d\<lparr>started_at := Some (utcnow_started ev)\<rparr> in
           case client_open ev provider_config of
             Some e \<Rightarrow> (d1, Inl e)
           | None \<Rightarrow>
               (case execute_operation rt ev provider_config (operation d) (kwargs_of d) of
                  Inl e \<Rightarrow> (d1, Inl e)
                | Inr resp \<Rightarrow>
                    (let d2 = d1\<lparr>completed_at := Some (utcnow_completed ev),
                                 response_data := Some resp\<rparr>
                     in (if operation d = CREATE \<and> resp \<noteq> []
                         then d2\<lparr>external_id := map_of resp ''id''\<rparr>
                         else d2,
                         Inr resp)))))"

text \<open>
  \<^verbatim>\<open>_process_operation\<close>: the returned flag, the dictionary as the call leaves it, and
  the engine.
\<close>

definition process_operation ::
  "runtime \<Rightarrow> engine \<Rightarrow> env \<Rightarrow> op_dict \<Rightarrow> bool \<times> op_dict \<times> engine" where
  "process_operation rt st ev d =
     (if scheduled_for_future ev d
      then (True, d, st\<lparr>pending := zadd (pending st) d (priority d)\<rparr>)
      else
        (case dispatch rt (providers st) ev d of
           (d', Inr resp) \<Rightarrow> (True, d', st)
         | (d', Inl e) \<Rightarrow> (False, d'\<lparr>error_message := Some (error_message_of e)\<rparr>, st)))"

definition timedelta_seconds :: "int \<Rightarrow> int" where
  "timedelta_seconds n = n * 1000000"

text \<open>
  The body of the worker's loop for a popped entry \<open>operation_data\<close> with its score
  \<open>priority\<close>; \<open>st\<close> is the engine after the pop. A retry count is absent on
  submission and only ever written as the one before plus one.
\<close>

definition handle_popped :: "runtime \<Rightarrow> engine \<Rightarrow> env \<Rightarrow> op_dict \<Rightarrow> int \<Rightarrow> engine" where
  "handle_popped rt st ev operation_data prio =
     (case process_operation rt
             (st\<lparr>processing := zadd (processing st) operation_data prio\<rparr>) ev operation_data of
        (success, operation_dict, st1) \<Rightarrow>
          (let st2 = st1\<lparr>processing := zrem (processing st1) operation_data\<rparr> in
           if success
           then update_metrics (st2\<lparr>completed := operation_data # completed st2\<rparr>)
                  (utcnow_metrics ev) ''operations_completed'' 1
           else
             (let rc = retry_count_of operation_dict in
              if rc < 3
              then st2\<lparr>pending := zadd (pending st2)
                        (operation_dict\<lparr>retry_count := Some (rc + 1),
                           scheduled_at := Some (utcnow_retry ev
                              + timedelta_seconds (min 300 (2 ^ rc)))\<rparr>)
                        prio\<rparr>
              else update_metrics (st2\<lparr>dlq := operation_data # dlq st2\<rparr>)
                     (utcnow_metrics ev) ''operations_failed'' 1)))"

text \<open>One iteration of \<^verbatim>\<open>_worker_loop\<close>: a pop that times out changes nothing.\<close>

definition worker_iteration :: "runtime \<Rightarrow> engine \<Rightarrow> env \<Rightarrow> engine" where
  "worker_iteration rt st ev =
     (case bzpopmin (pending st) of
        None \<Rightarrow> st
      | Some ((operation_data, prio), rest) \<Rightarrow>
          handle_popped rt (st\<lparr>pending := rest\<rparr>) ev operation_data prio)"


section \<open>Notions used to state the properties\<close>





subsection \<open>Concrete inputs\<close>

text \<open>
  A Salesforce provider \<^verbatim>\<open>sf\<close> with 6000 requests per minute and a burst of 10, the
  engine that has registered it, a contact with every field of the default mapping, and
  a CREATE for it.
\<close>

definition sf_config :: ProviderConfig where
  "sf_config =
     \<lparr>name = ''sf'', provider_type = SALESFORCE, base_url = ''https://sf.example'',
      rate_limit_per_minute = 6000, burst_limit = 10, timeout_seconds = 30, max_retries = 3,
      auth_config = \<lparr>auth_type = ''api_key'', credentials = [(''api_key'', PStr ''k'')],
                      token_url = None, refresh_token = None\<rparr>\<rparr>"

definition sf_engine :: engine where
  "sf_engine = add_provider new_engine sf_config"

definition full_contact :: RecordData where
  "full_contact =
     \<lparr>rd_id = None,
      data = [''first_name'' \<mapsto> PStr ''A'', ''last_name'' \<mapsto> PStr ''B'',
              ''email'' \<mapsto> PStr ''a@b.co'', ''phone'' \<mapsto> PStr ''5551234567'',
              ''company_id'' \<mapsto> PStr ''c1'', ''title'' \<mapsto> PStr ''t''],
      schema_version = ''1.0''\<rparr>"

definition create_op :: SyncOperation where
  "create_op =
     \<lparr>op_id = ''op-1'', operation = CREATE, provider = ''sf'', record_id = None,
      record_data = Some full_contact, priority = 5, created_at = 0, scheduled_at = None\<rparr>"

text \<open>
  The same CREATE scheduled for second 2, and a READ that names no record.
\<close>

definition later_op :: SyncOperation where
  "later_op = create_op\<lparr>op_id := ''op-2'', scheduled_at := Some 2000000\<rparr>"

definition read_op :: SyncOperation where
  "read_op =
     \<lparr>op_id = ''op-3'', operation = READ, provider = ''sf'', record_id = None,
      record_data = None, priority = 5, created_at = 0, scheduled_at = None\<rparr>"

text \<open>
  An iteration in which every clock reading is \<open>t\<close>, the client opens, and the exchange
  answers by method and endpoint: a server that answers the POST of a contact with
  \<^verbatim>\<open>{"id": "x"}\<close>, and a rate limiter that rejects.
\<close>

definition env_at :: "datetime \<Rightarrow> (string \<Rightarrow> string \<Rightarrow> error + response) \<Rightarrow> env" where
  "env_at t http =
     \<lparr>utcnow_gate = t, utcnow_started = t, utcnow_completed = t, utcnow_retry = t,
      utcnow_metrics = t, client_open = (\<lambda>cfg. None),
      make_request = (\<lambda>cfg m ep body. http m ep)\<rparr>"

definition created_201 :: "string \<Rightarrow> string \<Rightarrow> error + response" where
  "created_201 m ep =
     (if m = ''POST'' \<and> ep = ''/services/data/v52.0/sobjects/Contact''
      then Inr [(''id'', PStr ''x'')]
      else Inl (APIError ''HTTP request failed''))"

definition rate_limited :: "string \<Rightarrow> string \<Rightarrow> error + response" where
  "rate_limited m ep = Inl (RateLimitError ''Rate limit exceeded for provider sf'')"


section \<open>Properties of the token bucket\<close>

subsection \<open>The rounding\<close>

lemma bit_length_bounds:
  "0 < n \<Longrightarrow> 2 ^ (bit_length n - 1) \<le> n \<and> n < 2 ^ bit_length n"
proof (induction n rule: bit_length.induct)
  case (1 n)
  show ?case
  proof (cases "n div 2 = 0")
    case True
    with 1(2) have "n = 1" by (simp add: div_eq_0_iff)
    then show ?thesis by (simp add: bit_length.simps)
  next
    case False
    with 1 have ih: "2 ^ (bit_length (n div 2) - 1) \<le> n div 2" "n div 2 < 2 ^ bit_length (n div 2)"
      by simp_all
    have pos: "0 < bit_length (n div 2)" using False by (simp add: bit_length.simps [of "n div 2"])
    have bl: "bit_length n = Suc (bit_length (n div 2))" using 1(2) by (simp add: bit_length.simps [of n])
    from pos obtain k where k: "bit_length (n div 2) = Suc k" by (cases "bit_length (n div 2)") auto
    from ih(1) have "2 * 2 ^ k \<le> 2 * (n div 2)" by (simp add: k)
    also have "\<dots> \<le> n" by simp
    finally have lo: "2 ^ (bit_length n - 1) \<le> n" by (simp add: bl k)
    from ih(2) have "n div 2 + 1 \<le> 2 ^ bit_length (n div 2)" by simp
    then have "2 * (n div 2) + 2 \<le> 2 * 2 ^ bit_length (n div 2)" by simp
    moreover have "n < 2 * (n div 2) + 2" by arith
    ultimately have hi: "n < 2 ^ bit_length n" by (simp add: bl)
    from lo hi show ?thesis by simp
  qed
qed

lemma pow2_of_nat: "pow2 (int k) = 2 ^ k"
  by (simp add: pow2_def)

lemma pow2_neg: "pow2 (- int k) = 1 / 2 ^ k"
  by (auto simp: pow2_def)

text \<open>The exponent is the one the definition of \<open>exponent\<close> announces.\<close>

lemma exponent_bounds:
  assumes "0 < x"
  shows "pow2 (exponent x) \<le> x \<and> x < pow2 (exponent x + 1)"
proof (cases "1 \<le> x")
  case True
  let ?n = "nat \<lfloor>x\<rfloor>"
  from True have n: "0 < ?n" by simp
  from True have fl: "real ?n \<le> x" "x < real ?n + 1" by linarith+
  from bit_length_bounds [OF n] have b: "2 ^ (bit_length ?n - 1) \<le> ?n" "?n < 2 ^ bit_length ?n" by simp_all
  from n b(2) have bp: "0 < bit_length ?n" by (cases "bit_length ?n") auto
  have e: "exponent x = int (bit_length ?n - 1)" using True bp by (simp add: exponent_def)
  have e1: "exponent x + 1 = int (bit_length ?n)" using e bp by simp
  from b(1) have "(2::real) ^ (bit_length ?n - 1) \<le> real ?n"
    by (metis of_nat_le_iff of_nat_numeral of_nat_power)
  with fl(1) have lo: "pow2 (exponent x) \<le> x" unfolding e pow2_of_nat by linarith
  from b(2) have "?n + 1 \<le> 2 ^ bit_length ?n" by linarith
  then have "real (?n + 1) \<le> 2 ^ bit_length ?n"
    by (metis of_nat_le_iff of_nat_numeral of_nat_power)
  with fl(2) have hi: "x < pow2 (exponent x + 1)" unfolding e1 pow2_of_nat by simp
  from lo hi show ?thesis by simp
next
  case False
  define c where "c = \<lceil>1 / x\<rceil>"
  define n where "n = nat (c - 1)"
  from False assms have inv: "1 < 1 / x" by simp
  have up: "1 / x \<le> of_int c" unfolding c_def by (rule le_of_int_ceiling)
  have dn: "of_int c - 1 < 1 / x" unfolding c_def by linarith
  from inv up have "1 < (of_int c :: real)" by linarith
  then have c2: "2 \<le> c" by linarith
  then have n: "0 < n" unfolding n_def by simp
  have cn: "real n = of_int c - 1" using c2 unfolding n_def by simp
  from bit_length_bounds [OF n] have b: "2 ^ (bit_length n - 1) \<le> n" "n < 2 ^ bit_length n" by simp_all
  from n b(2) have bp: "0 < bit_length n" by (cases "bit_length n") auto
  have e: "exponent x = - int (bit_length n)" using False by (simp add: exponent_def n_def c_def)
  have e1: "exponent x + 1 = - int (bit_length n - 1)" using e bp by simp
  from b(2) have "n + 1 \<le> 2 ^ bit_length n" by linarith
  then have "real (n + 1) \<le> 2 ^ bit_length n"
    by (metis of_nat_le_iff of_nat_numeral of_nat_power)
  then have "real n + 1 \<le> 2 ^ bit_length n" by (simp only: of_nat_add of_nat_1)
  with up cn have "1 / x \<le> 2 ^ bit_length n" by linarith
  then have lo: "pow2 (exponent x) \<le> x" unfolding e pow2_neg using assms
    by (simp add: field_simps)
  from b(1) have "(2::real) ^ (bit_length n - 1) \<le> real n"
    by (metis of_nat_le_iff of_nat_numeral of_nat_power)
  with dn cn have "2 ^ (bit_length n - 1) < 1 / x" by linarith
  then have hi: "x < pow2 (exponent x + 1)" unfolding e1 pow2_neg using assms
    by (simp add: field_simps)
  from lo hi show ?thesis by simp
qed

lemma round_half_even_nearest: "\<bar>of_int (round_half_even y) - y\<bar> \<le> 1 / 2"
  unfolding round_half_even_def by (simp add: abs_le_iff)

lemmas binary64_eval = binary64_def exponent_def round_half_even_def pow2_def bit_length.simps

text \<open>
  Known values: a tenth, the sum of one tenth and two tenths (the \<^verbatim>\<open>0.30000000000000004\<close>
  of the interpreter), and numbers that need no rounding.
\<close>

lemma binary64_tenth: "binary64 (1 / 10) = 3602879701896397 / 2 ^ 55"
  by (simp add: binary64_eval)

lemma binary64_tenth_plus_two_tenths:
  "binary64 (binary64 (1 / 10) + binary64 (2 / 10)) = 5404319552844596 / 2 ^ 54"
  by (simp add: binary64_eval)

lemma binary64_exact_values:
  "binary64 0 = 0" "binary64 1 = 1" "binary64 (1 / 2) = 1 / 2" "binary64 30 = 30"
  "binary64 1700000000 = 1700000000" "binary64 1700000001 = 1700000001"
  "binary64 1700000002 = 1700000002"
  by (simp_all add: binary64_eval)

subsection \<open>The refill\<close>

text \<open>
  The product is rounded before the script takes its floor: at 21 tokens per minute
  the rate is the binary64 value next below \<open>0.35\<close>, and 180 seconds give
  \<^verbatim>\<open>62.99999999999999\<close>, so 62 tokens, where the exact product is 63.
\<close>

lemma consume_floors_the_rounded_product:
  "refill_rate (provider_bucket ''sf'' 21 100) = 6305039478318694 / 2 ^ 54
   \<and> binary64 (180 * (6305039478318694 / 2 ^ 54)) = 8866461766385663 / 2 ^ 47
   \<and> consume (provider_bucket ''sf'' 21 100)
        [''rate_limit:sf:sf'' \<mapsto> \<lparr>tokens = 0, last_refill = 1700000000\<rparr>] ''sf'' 63 1700000180
      = (False, [''rate_limit:sf:sf'' \<mapsto> \<lparr>tokens = 62, last_refill = 1700000180\<rparr>])"
proof -
  define q :: real where "q = 6305039478318694 / 2 ^ 54"
  define w :: real where "w = 8866461766385663 / 2 ^ 47"
  have rate: "refill_rate (provider_bucket ''sf'' 21 100) = q"
    unfolding q_def by (simp add: provider_bucket_def binary64_eval)
  have prod: "binary64 (180 * q) = w"
    unfolding q_def w_def by (simp add: binary64_eval)
  have fl: "\<lfloor>w\<rfloor> = 62"
    unfolding w_def by simp
  have exact: "binary64 180 = 180" "binary64 100 = 100" "binary64 63 = 63" "binary64 62 = 62"
    by (simp_all add: binary64_eval)
  have bucket: "key_prefix (provider_bucket ''sf'' 21 100) = ''rate_limit:sf''"
      "capacity (provider_bucket ''sf'' 21 100) = 100"
    by (simp_all add: provider_bucket_def)
  have "consume (provider_bucket ''sf'' 21 100)
        [''rate_limit:sf:sf'' \<mapsto> \<lparr>tokens = 0, last_refill = 1700000000\<rparr>] ''sf'' 63 1700000180
      = (False, [''rate_limit:sf:sf'' \<mapsto> \<lparr>tokens = 62, last_refill = 1700000180\<rparr>])"
    by (simp add: consume_def Let_def bucket rate prod fl exact)
  with rate prod show ?thesis unfolding q_def w_def by simp
qed

lemma half_rate: "refill_rate (provider_bucket ''sf'' 30 1) = 1 / 2"
  by (simp add: provider_bucket_def binary64_eval)

lemma half_bucket:
  "key_prefix (provider_bucket ''sf'' 30 1) = ''rate_limit:sf''"
  "capacity (provider_bucket ''sf'' 30 1) = 1"
  by (simp_all add: provider_bucket_def)

text \<open>
  C2. The code at a bucket of 30 tokens per minute and capacity 1, that is half a token
  per second, asked for one token at three consecutive seconds, starting with no stored
  state. The first call finds the bucket full, takes the token and stores 0. The second
  call, one second later, adds the floor of half a token, which is none, stores 0 and
  the new time of the last refill, and refuses. The third call, after another second, is
  in the same position and refuses again: the half token of each second is dropped with
  the time it came from, and a caller that asks every second is never admitted again.
  With the exact refill of the specification the second call stores half a token and the
  third call is admitted.
\<close>

theorem consume_drops_fractional_refill:
  "consume (provider_bucket ''sf'' 30 1) Map.empty ''sf'' 1 1700000000
     = (True, [''rate_limit:sf:sf'' \<mapsto> \<lparr>tokens = 0, last_refill = 1700000000\<rparr>])
   \<and> consume (provider_bucket ''sf'' 30 1)
        [''rate_limit:sf:sf'' \<mapsto> \<lparr>tokens = 0, last_refill = 1700000000\<rparr>] ''sf'' 1 1700000001
     = (False, [''rate_limit:sf:sf'' \<mapsto> \<lparr>tokens = 0, last_refill = 1700000001\<rparr>])
   \<and> consume (provider_bucket ''sf'' 30 1)
        [''rate_limit:sf:sf'' \<mapsto> \<lparr>tokens = 0, last_refill = 1700000001\<rparr>] ''sf'' 1 1700000002
     = (False, [''rate_limit:sf:sf'' \<mapsto> \<lparr>tokens = 0, last_refill = 1700000002\<rparr>])
   \<and> spec_acquire 1 30 None 1 1700000000
     = (True, \<lparr>tokens = 0, last_refill = 1700000000\<rparr>)
   \<and> spec_acquire 1 30 (Some \<lparr>tokens = 0, last_refill = 1700000000\<rparr>) 1 1700000001
     = (False, \<lparr>tokens = 1 / 2, last_refill = 1700000001\<rparr>)
   \<and> spec_acquire 1 30 (Some \<lparr>tokens = 1 / 2, last_refill = 1700000001\<rparr>) 1 1700000002
     = (True, \<lparr>tokens = 0, last_refill = 1700000002\<rparr>)"
proof (intro conjI)
  show "consume (provider_bucket ''sf'' 30 1) Map.empty ''sf'' 1 1700000000
     = (True, [''rate_limit:sf:sf'' \<mapsto> \<lparr>tokens = 0, last_refill = 1700000000\<rparr>])"
    by (simp add: consume_def half_rate half_bucket Let_def binary64_exact_values)
  show "consume (provider_bucket ''sf'' 30 1)
        [''rate_limit:sf:sf'' \<mapsto> \<lparr>tokens = 0, last_refill = 1700000000\<rparr>] ''sf'' 1 1700000001
     = (False, [''rate_limit:sf:sf'' \<mapsto> \<lparr>tokens = 0, last_refill = 1700000001\<rparr>])"
    by (simp add: consume_def half_rate half_bucket Let_def binary64_exact_values)
  show "consume (provider_bucket ''sf'' 30 1)
        [''rate_limit:sf:sf'' \<mapsto> \<lparr>tokens = 0, last_refill = 1700000001\<rparr>] ''sf'' 1 1700000002
     = (False, [''rate_limit:sf:sf'' \<mapsto> \<lparr>tokens = 0, last_refill = 1700000002\<rparr>])"
    by (simp add: consume_def half_rate half_bucket Let_def binary64_exact_values)
  show "spec_acquire 1 30 None 1 1700000000 = (True, \<lparr>tokens = 0, last_refill = 1700000000\<rparr>)"
    by (simp add: spec_acquire_def Let_def)
  show "spec_acquire 1 30 (Some \<lparr>tokens = 0, last_refill = 1700000000\<rparr>) 1 1700000001
     = (False, \<lparr>tokens = 1 / 2, last_refill = 1700000001\<rparr>)"
    by (simp add: spec_acquire_def Let_def)
  show "spec_acquire 1 30 (Some \<lparr>tokens = 1 / 2, last_refill = 1700000001\<rparr>) 1 1700000002
     = (True, \<lparr>tokens = 0, last_refill = 1700000002\<rparr>)"
    by (simp add: spec_acquire_def Let_def)
qed

section \<open>Properties of the schema transformer\<close>

lemma transform_value_error:
  "transform_value reg v n = Inl e \<Longrightarrow> \<exists>msg. e = TransformationError msg"
  by (auto simp: transform_value_def split: option.splits sum.splits)

lemma transform_loop_step:
  "(\<exists>msg. transform_loop reg inp dir (m # ms) out = Inl (TransformationError msg))
   \<or> (\<exists>out'. transform_loop reg inp dir (m # ms) out = transform_loop reg inp dir ms out')"
  by (auto simp: Let_def dest: transform_value_error split: sum.splits)

lemma transform_loop_unknown_head:
  assumes "transformer m = Some t" "t \<noteq> []" "reg t = None"
    "dict_get inp (source_field dir m) \<noteq> PNone"
  shows "transform_loop reg inp dir (m # ms) out =
     (if required m then Inl (TransformationError (''Unknown transformer: '' @ t))
      else transform_loop reg inp dir ms out)"
  using assms by (simp add: Let_def transform_value_def)

lemma transform_loop_unknown_required:
  assumes "m \<in> set ms" "transformer m = Some t" "t \<noteq> []" "reg t = None"
    "dict_get inp (source_field dir m) \<noteq> PNone" "required m"
  shows "\<exists>msg. transform_loop reg inp dir ms out = Inl (TransformationError msg)"
  using assms(1)
proof (induction ms arbitrary: out)
  case Nil
  then show ?case by simp
next
  case (Cons a ms)
  show ?case
  proof (cases "a = m")
    case True
    have "transform_loop reg inp dir (m # ms) out =
       (if required m then Inl (TransformationError (''Unknown transformer: '' @ t))
        else transform_loop reg inp dir ms out)"
      using assms(2-5) by (rule transform_loop_unknown_head)
    with True assms(6) show ?thesis by simp
  next
    case False
    with Cons.prems have mem: "m \<in> set ms" by simp
    from transform_loop_step [of reg inp dir a ms out] show ?thesis
    proof
      assume "\<exists>msg. transform_loop reg inp dir (a # ms) out = Inl (TransformationError msg)"
      then show ?thesis .
    next
      assume "\<exists>out'. transform_loop reg inp dir (a # ms) out = transform_loop reg inp dir ms out'"
      then obtain out' where
        "transform_loop reg inp dir (a # ms) out = transform_loop reg inp dir ms out'" ..
      with Cons.IH [OF mem, of out'] show ?thesis by simp
    qed
  qed
qed

text \<open>
  C7, as the code has it. When a mapping names a transformer that is not in the registry
  and its source value is not null, \<open>transform_record\<close> raises \<^verbatim>\<open>TransformationError\<close>
  if the mapping is required. If it is optional, the loop catches the error of the
  unknown name like any other failure of a transformer and goes on to the next mapping
  with the output unchanged: the field is skipped.
\<close>

theorem unknown_transformer_raises_when_required:
  assumes "m \<in> set mappings" and "transformer m = Some t" and "t \<noteq> []" and "reg t = None"
    and "dict_get (data r) (source_field direction m) \<noteq> PNone"
  shows "(required m \<longrightarrow>
            (\<exists>msg. transform_record reg r mappings direction = Inl (TransformationError msg)))
       \<and> (\<not> required m \<longrightarrow>
            transform_loop reg (data r) direction (m # rest) out
              = transform_loop reg (data r) direction rest out)"
proof (intro conjI impI)
  assume "required m"
  with assms show "\<exists>msg. transform_record reg r mappings direction = Inl (TransformationError msg)"
    unfolding transform_record_def by (rule transform_loop_unknown_required)
next
  assume "\<not> required m"
  moreover have "transform_loop reg (data r) direction (m # rest) out =
       (if required m then Inl (TransformationError (''Unknown transformer: '' @ t))
        else transform_loop reg (data r) direction rest out)"
    using assms(2-5) by (rule transform_loop_unknown_head)
  ultimately show "transform_loop reg (data r) direction (m # rest) out
      = transform_loop reg (data r) direction rest out" by simp
qed

text \<open>
  A required mapping with the unknown transformer \<^verbatim>\<open>nope\<close> on a record that has the
  field.
\<close>

theorem unknown_transformer_required_witness:
  "\<forall>rt. \<exists>msg. transform_record (transformers rt)
      \<lparr>rd_id = None, data = [''a'' \<mapsto> PStr ''x''], schema_version = ''1.0''\<rparr>
      [\<lparr>internal_field = ''a'', external_field = ''A'', transformer = Some ''nope'',
         required = True\<rparr>]
      ''internal_to_external'' = Inl (TransformationError msg)"
proof
  fix rt
  let ?m = "\<lparr>internal_field = ''a'', external_field = ''A'', transformer = Some ''nope'',
     required = True\<rparr>"
  let ?r = "\<lparr>rd_id = None, data = [''a'' \<mapsto> PStr ''x''], schema_version = ''1.0''\<rparr>"
  have h1: "?m \<in> set [?m]" by simp
  have h2: "transformer ?m = Some ''nope''" by simp
  have h3: "''nope'' \<noteq> []" by simp
  have h4: "transformers rt ''nope'' = None" by (simp add: transformers_def)
  have h5: "dict_get (data ?r) (source_field ''internal_to_external'' ?m) \<noteq> PNone"
    by (simp add: dict_get_def source_field_def)
  from unknown_transformer_raises_when_required
    [where reg = "transformers rt" and t = "''nope''", OF h1 h2 h3 h4 h5]
  show "\<exists>msg. transform_record (transformers rt) ?r [?m] ''internal_to_external''
      = Inl (TransformationError msg)" by simp
qed

text \<open>
  C7 as stated fails: the same mapping marked optional raises nothing, and the
  transformation returns the empty output.
\<close>

theorem unknown_transformer_optional_counterexample:
  "\<forall>rt. transform_record (transformers rt)
      \<lparr>rd_id = None, data = [''a'' \<mapsto> PStr ''x''], schema_version = ''1.0''\<rparr>
      [\<lparr>internal_field = ''a'', external_field = ''A'', transformer = Some ''nope'',
         required = False\<rparr>]
      ''internal_to_external'' = Inr Map.empty"
  by (simp add: transform_record_def Let_def dict_get_def source_field_def transform_value_def
        transformers_def)

lemma builtin_names_registry: "dom (transformers rt) = set builtin_names"
  by (simp add: transformers_def builtin_names_def dom_map_of_conv_image_fst)

lemmas builtin_defs =
  transform_value_def transformers_def to_upper_def to_lower_def to_string_def to_int_def
  to_float_def to_bool_def truncate_255_def format_phone_def format_email_def format_date_def
  clean_html_def remove_special_chars_def

text \<open>
  C8, as the code has it. Every built-in transformer returns null for a null input. For
  the empty string, the eight that test the truth value of their input return null;
  \<^verbatim>\<open>to_string\<close> and \<^verbatim>\<open>to_bool\<close>, which test \<^verbatim>\<open>is not None\<close>, return the empty string and
  false; \<^verbatim>\<open>to_int\<close> and \<^verbatim>\<open>to_float\<close>, which test the same, raise, and \<open>transform_value\<close>
  turns that into a \<^verbatim>\<open>TransformationError\<close>.
\<close>

theorem builtins_on_null_and_empty:
  "dom (transformers rt) = set builtin_names
   \<and> (\<forall>n\<in>set builtin_names. transform_value (transformers rt) PNone n = Inr PNone)
   \<and> (\<forall>n\<in>set [''to_upper'', ''to_lower'', ''format_phone'', ''format_email'', ''format_date'',
                 ''clean_html'', ''truncate_255'', ''remove_special_chars''].
         transform_value (transformers rt) (PStr []) n = Inr PNone)
   \<and> transform_value (transformers rt) (PStr []) ''to_string'' = Inr (PStr [])
   \<and> transform_value (transformers rt) (PStr []) ''to_bool'' = Inr (PBool False)
   \<and> (\<exists>msg. transform_value (transformers rt) (PStr []) ''to_int'' = Inl (TransformationError msg))
   \<and> (\<exists>msg. transform_value (transformers rt) (PStr []) ''to_float'' = Inl (TransformationError msg))"
proof (intro conjI)
  show "dom (transformers rt) = set builtin_names" by (rule builtin_names_registry)
  show "\<forall>n\<in>set builtin_names. transform_value (transformers rt) PNone n = Inr PNone"
    by (simp add: builtin_names_def builtin_defs)
  show "\<forall>n\<in>set [''to_upper'', ''to_lower'', ''format_phone'', ''format_email'', ''format_date'',
                 ''clean_html'', ''truncate_255'', ''remove_special_chars''].
         transform_value (transformers rt) (PStr []) n = Inr PNone"
    by (simp add: builtin_defs)
  show "transform_value (transformers rt) (PStr []) ''to_string'' = Inr (PStr [])"
    by (simp add: builtin_defs)
  show "transform_value (transformers rt) (PStr []) ''to_bool'' = Inr (PBool False)"
    by (simp add: builtin_defs)
  show "\<exists>msg. transform_value (transformers rt) (PStr []) ''to_int'' = Inl (TransformationError msg)"
    by (simp add: builtin_defs strip_def)
  show "\<exists>msg. transform_value (transformers rt) (PStr []) ''to_float'' = Inl (TransformationError msg)"
    by (simp add: builtin_defs strip_def)
qed

text \<open>\<^verbatim>\<open>format_phone\<close> on null and \<^verbatim>\<open>clean_html\<close> on the empty string.\<close>

theorem builtins_on_null_and_empty_witness:
  "\<forall>rt. transform_value (transformers rt) PNone ''format_phone'' = Inr PNone
      \<and> transform_value (transformers rt) (PStr []) ''clean_html'' = Inr PNone"
proof
  fix rt
  have a: "''format_phone'' \<in> set builtin_names" by (simp add: builtin_names_def)
  have b: "''clean_html'' \<in> set [''to_upper'', ''to_lower'', ''format_phone'', ''format_email'',
      ''format_date'', ''clean_html'', ''truncate_255'', ''remove_special_chars'']" by simp
  from builtins_on_null_and_empty [of rt] a b
  show "transform_value (transformers rt) PNone ''format_phone'' = Inr PNone
      \<and> transform_value (transformers rt) (PStr []) ''clean_html'' = Inr PNone"
    by blast
qed

text \<open>
  C8 as stated fails: \<^verbatim>\<open>to_bool\<close> of the empty string is false, not null, and
  \<^verbatim>\<open>to_int\<close> of it raises.
\<close>

theorem builtins_on_empty_counterexample:
  "\<forall>rt. transform_value (transformers rt) (PStr []) ''to_bool'' = Inr (PBool False)
      \<and> to_int rt (PStr []) = Inl (ValueError ''int'')"
  by (simp add: builtin_defs strip_def)

subsection \<open>Round trip\<close>

text \<open>
  A list of mappings without transformers whose required fields are all present: the
  loop returns, and each key of the output either is the target of a mapping with a
  non-null source and holds such a source's value, or is as it was.
\<close>

lemma plain_loop:
  assumes "\<forall>m\<in>set ms. transformer m = None"
    and "\<forall>m\<in>set ms. required m \<longrightarrow> dict_get inp (source_field dir m) \<noteq> PNone"
  shows "\<exists>out'. transform_loop reg inp dir ms out = Inr out' \<and>
     (\<forall>k. if (\<exists>m\<in>set ms. target_field dir m = k \<and> dict_get inp (source_field dir m) \<noteq> PNone)
          then (\<exists>m\<in>set ms. target_field dir m = k \<and> dict_get inp (source_field dir m) \<noteq> PNone
                  \<and> out' k = Some (dict_get inp (source_field dir m)))
          else out' k = out k)"
  using assms
proof (induction ms arbitrary: out)
  case Nil
  then show ?case by simp
next
  case (Cons a ms)
  let ?v = "dict_get inp (source_field dir a)"
  let ?out1 = "if ?v \<noteq> PNone then out(target_field dir a \<mapsto> ?v) else out"
  have step: "transform_loop reg inp dir (a # ms) out = transform_loop reg inp dir ms ?out1"
    using Cons.prems by (auto simp: Let_def)
  from Cons.prems have "\<forall>m\<in>set ms. transformer m = None"
    and "\<forall>m\<in>set ms. required m \<longrightarrow> dict_get inp (source_field dir m) \<noteq> PNone"
    by simp_all
  from Cons.IH [OF this, of ?out1] obtain out' where
    r: "transform_loop reg inp dir ms ?out1 = Inr out'" and
    p: "\<And>k. if (\<exists>m\<in>set ms. target_field dir m = k \<and> dict_get inp (source_field dir m) \<noteq> PNone)
          then (\<exists>m\<in>set ms. target_field dir m = k \<and> dict_get inp (source_field dir m) \<noteq> PNone
                  \<and> out' k = Some (dict_get inp (source_field dir m)))
          else out' k = ?out1 k"
    by blast
  have "\<forall>k. if (\<exists>m\<in>set (a # ms). target_field dir m = k \<and> dict_get inp (source_field dir m) \<noteq> PNone)
          then (\<exists>m\<in>set (a # ms). target_field dir m = k \<and> dict_get inp (source_field dir m) \<noteq> PNone
                  \<and> out' k = Some (dict_get inp (source_field dir m)))
          else out' k = out k"
  proof
    fix k
    show "if (\<exists>m\<in>set (a # ms). target_field dir m = k \<and> dict_get inp (source_field dir m) \<noteq> PNone)
          then (\<exists>m\<in>set (a # ms). target_field dir m = k \<and> dict_get inp (source_field dir m) \<noteq> PNone
                  \<and> out' k = Some (dict_get inp (source_field dir m)))
          else out' k = out k"
      using p [of k] by (auto split: if_splits)
  qed
  with step r show ?case by simp
qed

lemma distinct_external:
  "distinct (map external_field ms) \<Longrightarrow> m \<in> set ms \<Longrightarrow> m' \<in> set ms
     \<Longrightarrow> external_field m = external_field m' \<Longrightarrow> m = m'"
  by (meson distinct_map inj_onD)

lemma covered:
  assumes "length (filter (\<lambda>m. internal_field m = f) ms) = 1"
  shows "\<exists>m\<in>set ms. internal_field m = f"
proof -
  from assms have "filter (\<lambda>m. internal_field m = f) ms \<noteq> []" by auto
  then show ?thesis by (simp add: filter_empty_conv)
qed

text \<open>
  C9, as the code has it. Let no mapping of \<open>M\<close> specify a transformer, every field of
  \<open>r\<close> be the internal field of exactly one mapping, the external fields be pairwise
  distinct, every value of \<open>r\<close> be non-null, and, in addition to what the claim asks,
  every mapping marked required have its internal field in \<open>r\<close>. Then transforming \<open>r\<close>
  internal-to-external and the result external-to-internal yields the fields of \<open>r\<close>
  again.
\<close>

theorem transform_round_trip:
  assumes no_tr: "\<forall>m\<in>set M. transformer m = None"
    and cover: "\<forall>f\<in>dom (data r). length (filter (\<lambda>m. internal_field m = f) M) = 1"
    and dist: "distinct (map external_field M)"
    and nonnull: "\<forall>f\<in>dom (data r). data r f \<noteq> Some PNone"
    and req: "\<forall>m\<in>set M. required m \<longrightarrow> internal_field m \<in> dom (data r)"
  shows "\<exists>e. transform_record reg r M ''internal_to_external'' = Inr e \<and>
     transform_record reg \<lparr>rd_id = None, data = e, schema_version = ''1.0''\<rparr> M
       ''external_to_internal'' = Inr (data r)"
proof -
  let ?i2e = "''internal_to_external''" and ?e2i = "''external_to_internal''"
  have src1: "\<And>m. source_field ?i2e m = internal_field m"
    and tgt1: "\<And>m. target_field ?i2e m = external_field m"
    and src2: "\<And>m. source_field ?e2i m = external_field m"
    and tgt2: "\<And>m. target_field ?e2i m = internal_field m"
    by (simp_all add: source_field_def target_field_def)
  have present: "dict_get (data r) f \<noteq> PNone" if "f \<in> dom (data r)" for f
    using that nonnull by (auto simp: dict_get_def)
  have req1: "\<forall>m\<in>set M. required m \<longrightarrow> dict_get (data r) (source_field ?i2e m) \<noteq> PNone"
    using req present by (simp add: src1)
  from plain_loop [OF no_tr req1, of reg Map.empty] obtain e where
    e: "transform_loop reg (data r) ?i2e M Map.empty = Inr e" and
    pe: "\<And>k. if (\<exists>m\<in>set M. external_field m = k \<and> dict_get (data r) (internal_field m) \<noteq> PNone)
          then (\<exists>m\<in>set M. external_field m = k \<and> dict_get (data r) (internal_field m) \<noteq> PNone
                  \<and> e k = Some (dict_get (data r) (internal_field m)))
          else e k = None"
    unfolding src1 tgt1 by auto
  have fwd: "dict_get e (external_field m) = dict_get (data r) (internal_field m)"
    if "m \<in> set M" for m
  proof (cases "dict_get (data r) (internal_field m) = PNone")
    case True
    have "\<not> (\<exists>m'\<in>set M. external_field m' = external_field m
         \<and> dict_get (data r) (internal_field m') \<noteq> PNone)"
      using distinct_external [OF dist _ that] True by metis
    with pe [of "external_field m"] have "e (external_field m) = None" by simp
    with True show ?thesis by (simp add: dict_get_def)
  next
    case False
    with that pe [of "external_field m"] obtain m' where
      "m' \<in> set M" "external_field m' = external_field m"
      and "e (external_field m) = Some (dict_get (data r) (internal_field m'))"
      by (auto split: if_splits)
    moreover from this have "m' = m" using distinct_external [OF dist _ that] by blast
    ultimately show ?thesis by (simp add: dict_get_def)
  qed
  have req2: "\<forall>m\<in>set M. required m \<longrightarrow> dict_get e (source_field ?e2i m) \<noteq> PNone"
    using req present fwd by (simp add: src2)
  from plain_loop [OF no_tr req2, of reg Map.empty] obtain g where
    g: "transform_loop reg e ?e2i M Map.empty = Inr g" and
    pg: "\<And>k. if (\<exists>m\<in>set M. internal_field m = k \<and> dict_get e (external_field m) \<noteq> PNone)
          then (\<exists>m\<in>set M. internal_field m = k \<and> dict_get e (external_field m) \<noteq> PNone
                  \<and> g k = Some (dict_get e (external_field m)))
          else g k = None"
    unfolding src2 tgt2 by auto
  have "g k = data r k" for k
  proof (cases "data r k")
    case None
    then have "dict_get (data r) k = PNone" by (simp add: dict_get_def)
    then have "\<not> (\<exists>m\<in>set M. internal_field m = k \<and> dict_get e (external_field m) \<noteq> PNone)"
      using fwd by auto
    with pg [of k] None show ?thesis by simp
  next
    case (Some v)
    then have kd: "k \<in> dom (data r)" by auto
    then obtain m where m: "m \<in> set M" "internal_field m = k"
      using cover covered by blast
    have v: "dict_get (data r) k = v" using Some by (simp add: dict_get_def)
    have "v \<noteq> PNone" using present [OF kd] v by simp
    with m fwd v have "\<exists>m\<in>set M. internal_field m = k \<and> dict_get e (external_field m) \<noteq> PNone"
      by auto
    with pg [of k] obtain m' where "m' \<in> set M" "internal_field m' = k"
      "g k = Some (dict_get e (external_field m'))" by (auto split: if_splits)
    with fwd v Some show ?thesis by simp
  qed
  then have "g = data r" by (rule ext)
  with e g show ?thesis by (simp add: transform_record_def)
qed

text \<open>
  The round trip of the record \<^verbatim>\<open>{a: 1, b: "x"}\<close> through a required and an optional
  mapping, with a third, optional mapping whose field the record does not have.
\<close>

theorem transform_round_trip_witness:
  "\<forall>reg. \<exists>e. transform_record reg
        \<lparr>rd_id = None, data = [''a'' \<mapsto> PInt 1, ''b'' \<mapsto> PStr ''x''], schema_version = ''1.0''\<rparr>
        [\<lparr>internal_field = ''a'', external_field = ''A'', transformer = None, required = True\<rparr>,
         \<lparr>internal_field = ''b'', external_field = ''B'', transformer = None, required = False\<rparr>,
         \<lparr>internal_field = ''c'', external_field = ''C'', transformer = None, required = False\<rparr>]
        ''internal_to_external'' = Inr e
      \<and> transform_record reg \<lparr>rd_id = None, data = e, schema_version = ''1.0''\<rparr>
        [\<lparr>internal_field = ''a'', external_field = ''A'', transformer = None, required = True\<rparr>,
         \<lparr>internal_field = ''b'', external_field = ''B'', transformer = None, required = False\<rparr>,
         \<lparr>internal_field = ''c'', external_field = ''C'', transformer = None, required = False\<rparr>]
        ''external_to_internal'' = Inr [''a'' \<mapsto> PInt 1, ''b'' \<mapsto> PStr ''x'']"
proof
  fix reg :: "string \<rightharpoonup> transformer"
  let ?r = "\<lparr>rd_id = None, data = [''a'' \<mapsto> PInt 1, ''b'' \<mapsto> PStr ''x''], schema_version = ''1.0''\<rparr>"
  let ?M = "[\<lparr>internal_field = ''a'', external_field = ''A'', transformer = None, required = True\<rparr>,
         \<lparr>internal_field = ''b'', external_field = ''B'', transformer = None, required = False\<rparr>,
         \<lparr>internal_field = ''c'', external_field = ''C'', transformer = None, required = False\<rparr>]"
  have h1: "\<forall>m\<in>set ?M. transformer m = None" by simp
  have h2: "\<forall>f\<in>dom (data ?r). length (filter (\<lambda>m. internal_field m = f) ?M) = 1" by simp
  have h3: "distinct (map external_field ?M)" by simp
  have h4: "\<forall>f\<in>dom (data ?r). data ?r f \<noteq> Some PNone" by simp
  have h5: "\<forall>m\<in>set ?M. required m \<longrightarrow> internal_field m \<in> dom (data ?r)" by simp
  from transform_round_trip [where reg = reg, OF h1 h2 h3 h4 h5]
  show "\<exists>e. transform_record reg ?r ?M ''internal_to_external'' = Inr e
      \<and> transform_record reg \<lparr>rd_id = None, data = e, schema_version = ''1.0''\<rparr> ?M
        ''external_to_internal'' = Inr [''a'' \<mapsto> PInt 1, ''b'' \<mapsto> PStr ''x'']"
    by simp
qed

text \<open>
  C9 as stated fails: the record \<^verbatim>\<open>{a: 1}\<close> and the mappings \<^verbatim>\<open>a\<close> to \<^verbatim>\<open>A\<close> and \<^verbatim>\<open>b\<close> to
  \<^verbatim>\<open>B\<close>, both required and without transformer, meet every condition of the claim, and
  the first transformation raises for the missing \<^verbatim>\<open>b\<close>.
\<close>

theorem transform_round_trip_counterexample:
  "\<forall>reg. transform_record reg
      \<lparr>rd_id = None, data = [''a'' \<mapsto> PInt 1], schema_version = ''1.0''\<rparr>
      [\<lparr>internal_field = ''a'', external_field = ''A'', transformer = None, required = True\<rparr>,
       \<lparr>internal_field = ''b'', external_field = ''B'', transformer = None, required = True\<rparr>]
      ''internal_to_external''
    = Inl (TransformationError (''Required field '' @ [CHR 0x27] @ ''b'' @ [CHR 0x27] @ '' is missing''))"
  by (simp add: transform_record_def Let_def dict_get_def source_field_def target_field_def)

section \<open>Properties of the sync engine\<close>

subsection \<open>Submission and status query\<close>

text \<open>
  C6. Submitting an operation whose provider is not registered raises the
  \<^verbatim>\<open>ValueError\<close> "Unknown provider" and leaves the engine as it was: none of the five
  tiers and no counter changes.
\<close>

theorem submit_unknown_provider_changes_nothing:
  assumes "provider op \<notin> dom (providers st)"
  shows "submit_operation st now op
           = (Inl (ValueError (''Unknown provider: '' @ provider op)), st)
       \<and> pending (snd (submit_operation st now op)) = pending st
       \<and> processing (snd (submit_operation st now op)) = processing st
       \<and> completed (snd (submit_operation st now op)) = completed st
       \<and> failed (snd (submit_operation st now op)) = failed st
       \<and> dlq (snd (submit_operation st now op)) = dlq st
       \<and> metrics (snd (submit_operation st now op)) = metrics st"
  using assms by (simp add: submit_operation_def)

text \<open>The CREATE of the concrete inputs, sent to a provider \<^verbatim>\<open>nope\<close> nobody registered.\<close>

theorem submit_unknown_provider_witness:
  "provider (create_op\<lparr>provider := ''nope''\<rparr>) \<notin> dom (providers sf_engine)
   \<and> submit_operation sf_engine 0 (create_op\<lparr>provider := ''nope''\<rparr>)
       = (Inl (ValueError ''Unknown provider: nope''), sf_engine)"
proof -
  have h: "provider (create_op\<lparr>provider := ''nope''\<rparr>) \<notin> dom (providers sf_engine)"
    by (simp add: sf_engine_def add_provider_def new_engine_def sf_config_def)
  from submit_unknown_provider_changes_nothing [OF h, of 0] h show ?thesis by simp
qed

lemma scan_not_found:
  "find (\<lambda>d. op_id d = oid) items = None
    \<Longrightarrow> scan_queues oid ((q, items) # queues) = scan_queues oid queues"
  by simp

lemma status_mapping_terminal:
  "status_mapping DLQ = FAILED" "status_mapping FAILED_QUEUE = FAILED"
  by (simp_all add: status_mapping_def PENDING_QUEUE_def PROCESSING_QUEUE_def
        COMPLETED_QUEUE_def FAILED_QUEUE_def DLQ_def)

text \<open>
  C10. Let the status query find no entry with the identifier in the pending,
  processing and completed tiers. If the failed tier holds one, the query answers from
  it, and if the failed tier holds none and the dead-letter tier holds one, the query
  answers from that; the status of an answer from either tier is \<^verbatim>\<open>FAILED\<close>.
\<close>

theorem dead_letter_status_is_failed:
  assumes "\<forall>d\<in>set (zrange (pending st)) \<union> set (zrange (processing st)) \<union> set (completed st).
             op_id d \<noteq> oid"
  shows "((\<exists>d\<in>set (failed st). op_id d = oid) \<longrightarrow>
            (\<exists>d\<in>set (failed st). op_id d = oid
               \<and> get_operation_status st oid = Some (deserialize_sync_result d FAILED_QUEUE)))
       \<and> ((\<forall>d\<in>set (failed st). op_id d \<noteq> oid) \<and> (\<exists>d\<in>set (dlq st). op_id d = oid) \<longrightarrow>
            (\<exists>d\<in>set (dlq st). op_id d = oid
               \<and> get_operation_status st oid = Some (deserialize_sync_result d DLQ)))
       \<and> (\<forall>d. sr_status (deserialize_sync_result d DLQ) = FAILED
              \<and> sr_status (deserialize_sync_result d FAILED_QUEUE) = FAILED)"
proof (intro conjI impI allI)
  have n1: "find (\<lambda>d. op_id d = oid) (zrange (pending st)) = None"
    and n2: "find (\<lambda>d. op_id d = oid) (zrange (processing st)) = None"
    and n3: "find (\<lambda>d. op_id d = oid) (completed st) = None"
    using assms by (auto simp: find_None_iff)
  have skip: "get_operation_status st oid =
      scan_queues oid [(FAILED_QUEUE, failed st), (DLQ, dlq st)]"
    by (simp add: get_operation_status_def n1 n2 n3)
  {
    assume "\<exists>d\<in>set (failed st). op_id d = oid"
    then obtain d where d: "find (\<lambda>d. op_id d = oid) (failed st) = Some d"
      by (cases "find (\<lambda>d. op_id d = oid) (failed st)") (auto simp: find_None_iff)
    then have "d \<in> set (failed st)" "op_id d = oid"
      by (auto simp: find_Some_iff)
    moreover have "get_operation_status st oid = Some (deserialize_sync_result d FAILED_QUEUE)"
      by (simp add: skip d)
    ultimately show "\<exists>d\<in>set (failed st). op_id d = oid
        \<and> get_operation_status st oid = Some (deserialize_sync_result d FAILED_QUEUE)"
      by blast
  }
  {
    assume h: "(\<forall>d\<in>set (failed st). op_id d \<noteq> oid) \<and> (\<exists>d\<in>set (dlq st). op_id d = oid)"
    then have n4: "find (\<lambda>d. op_id d = oid) (failed st) = None"
      by (auto simp: find_None_iff)
    from h obtain d where d: "find (\<lambda>d. op_id d = oid) (dlq st) = Some d"
      by (cases "find (\<lambda>d. op_id d = oid) (dlq st)") (auto simp: find_None_iff)
    then have "d \<in> set (dlq st)" "op_id d = oid"
      by (auto simp: find_Some_iff)
    moreover have "get_operation_status st oid = Some (deserialize_sync_result d DLQ)"
      by (simp add: skip n4 d)
    ultimately show "\<exists>d\<in>set (dlq st). op_id d = oid
        \<and> get_operation_status st oid = Some (deserialize_sync_result d DLQ)"
      by blast
  }
  fix d
  show "sr_status (deserialize_sync_result d DLQ) = FAILED"
    and "sr_status (deserialize_sync_result d FAILED_QUEUE) = FAILED"
    by (simp_all add: deserialize_sync_result_def status_mapping_terminal)
qed

text \<open>An engine whose only entry is the READ of the concrete inputs, dead-lettered.\<close>

theorem dead_letter_status_witness:
  "map_option sr_status
     (get_operation_status (new_engine\<lparr>dlq := [operation_data_of read_op]\<rparr>) ''op-3'')
     = Some FAILED"
proof -
  let ?st = "new_engine\<lparr>dlq := [operation_data_of read_op]\<rparr>"
  have h1: "\<forall>d\<in>set (zrange (pending ?st)) \<union> set (zrange (processing ?st)) \<union> set (completed ?st).
             op_id d \<noteq> ''op-3''"
    by (simp add: new_engine_def zrange_def)
  have h2: "(\<forall>d\<in>set (failed ?st). op_id d \<noteq> ''op-3'') \<and> (\<exists>d\<in>set (dlq ?st). op_id d = ''op-3'')"
    by (simp add: new_engine_def operation_data_of_def read_op_def)
  from dead_letter_status_is_failed [OF h1] h2
  obtain d where "get_operation_status ?st ''op-3'' = Some (deserialize_sync_result d DLQ)"
    and "sr_status (deserialize_sync_result d DLQ) = FAILED"
    by blast
  then show ?thesis by simp
qed

subsection \<open>A failed dispatch\<close>

lemma zrem_zadd_same: "zrem (zadd zs m s) m = zrem zs m"
  by (simp add: zadd_def zrem_def)

lemma zrem_subset: "x \<in> set (zrem zs m) \<Longrightarrow> x \<in> set zs \<and> fst x \<noteq> m"
  by (simp add: zrem_def)

lemma bzpopmin_single: "bzpopmin [(d, p)] = Some ((d, p), [])"
  by (simp add: bzpopmin_def zrem_def)

text \<open>A dispatch writes \<^verbatim>\<open>started_at\<close>, \<^verbatim>\<open>completed_at\<close>, \<^verbatim>\<open>response_data\<close> and
  \<^verbatim>\<open>external_id\<close> only.\<close>

lemma dispatch_keeps:
  assumes "dispatch rt provs ev d = (d', r)"
  shows "retry_count d' = retry_count d \<and> op_id d' = op_id d \<and> operation d' = operation d
     \<and> provider d' = provider d \<and> record_id d' = record_id d \<and> record_data d' = record_data d
     \<and> priority d' = priority d \<and> created_at d' = created_at d \<and> scheduled_at d' = scheduled_at d
     \<and> error_message d' = error_message d"
  using assms by (auto simp: dispatch_def Let_def split: option.splits sum.splits if_splits)

lemma handle_popped_failure:
  assumes due: "\<not> scheduled_for_future ev d"
    and fails: "dispatch rt (providers st) ev d = (d', Inl e)"
  shows "handle_popped rt st ev d p =
    (if retry_count_of d < 3
     then st\<lparr>processing := zrem (processing st) d,
             pending := zadd (pending st)
               (d'\<lparr>error_message := Some (error_message_of e),
                   retry_count := Some (retry_count_of d + 1),
                   scheduled_at := Some (utcnow_retry ev
                      + timedelta_seconds (min 300 (2 ^ retry_count_of d)))\<rparr>) p\<rparr>
     else update_metrics (st\<lparr>processing := zrem (processing st) d, dlq := d # dlq st\<rparr>)
            (utcnow_metrics ev) ''operations_failed'' 1)"
proof -
  have rc: "retry_count_of d' = retry_count_of d"
    using dispatch_keeps [OF fails] by (simp add: retry_count_of_def)
  have po: "process_operation rt (st\<lparr>processing := zadd (processing st) d p\<rparr>) ev d =
      (False, d'\<lparr>error_message := Some (error_message_of e)\<rparr>,
       st\<lparr>processing := zadd (processing st) d p\<rparr>)"
    using due fails by (simp add: process_operation_def)
  have rc': "retry_count_of (d'\<lparr>error_message := Some (error_message_of e)\<rparr>) = retry_count_of d"
    using rc by (simp add: retry_count_of_def)
  show ?thesis
    by (simp add: handle_popped_def po rc' Let_def zrem_zadd_same)
qed

text \<open>
  C3. Let the popped entry \<open>d\<close> with score \<open>p\<close> be due, let its dispatch end with an
  error \<open>e\<close>, whatever it is, leaving the dictionary \<open>d'\<close>, and let \<open>k\<close> be the retry
  count of the entry before the attempt, 0 when it has none. The attempt leaves the
  count as it is. If \<open>k < 3\<close>, the worker adds to the pending tier, with the score \<open>p\<close>,
  the dictionary with the error message, the retry count \<open>k + 1\<close> and \<^verbatim>\<open>scheduled_at\<close>
  set to the time of the retry plus \<open>min 300 (2 ^ (k + 1 - 1))\<close> seconds; it removes the
  entry from the processing tier and changes no other tier and no counter. Otherwise it
  pushes the entry on the dead-letter tier, adds one to the counter
  \<^verbatim>\<open>operations_failed\<close> of the hour and to no other counter, removes the entry from the
  processing tier and changes no other tier. Times are in microseconds.
\<close>

theorem failed_dispatch_retries_or_dead_letters:
  assumes "\<not> scheduled_for_future ev d"
    and "dispatch rt (providers st) ev d = (d', Inl e)"
    and "k = (case retry_count d of None \<Rightarrow> 0 | Some n \<Rightarrow> n)"
  shows "retry_count d' = retry_count d
    \<and> (k < 3 \<longrightarrow>
          pending (handle_popped rt st ev d p)
            = zadd (pending st)
                (d'\<lparr>error_message := Some (error_message_of e),
                    retry_count := Some (k + 1),
                    scheduled_at := Some (utcnow_retry ev + 1000000 * min 300 (2 ^ (k + 1 - 1)))\<rparr>)
                p
        \<and> processing (handle_popped rt st ev d p) = zrem (processing st) d
        \<and> dlq (handle_popped rt st ev d p) = dlq st
        \<and> completed (handle_popped rt st ev d p) = completed st
        \<and> failed (handle_popped rt st ev d p) = failed st
        \<and> metrics (handle_popped rt st ev d p) = metrics st)
    \<and> (\<not> k < 3 \<longrightarrow>
          dlq (handle_popped rt st ev d p) = d # dlq st
        \<and> metrics (handle_popped rt st ev d p) (current_hour (utcnow_metrics ev), ''operations_failed'')
            = metrics st (current_hour (utcnow_metrics ev), ''operations_failed'') + 1
        \<and> (\<forall>c. c \<noteq> (current_hour (utcnow_metrics ev), ''operations_failed'')
               \<longrightarrow> metrics (handle_popped rt st ev d p) c = metrics st c)
        \<and> pending (handle_popped rt st ev d p) = pending st
        \<and> processing (handle_popped rt st ev d p) = zrem (processing st) d
        \<and> completed (handle_popped rt st ev d p) = completed st
        \<and> failed (handle_popped rt st ev d p) = failed st)"
proof -
  have k: "retry_count_of d = k" using assms(3) by (simp add: retry_count_of_def)
  note hp = handle_popped_failure [OF assms(1,2), of p, unfolded k]
  have keep: "retry_count d' = retry_count d" using dispatch_keeps [OF assms(2)] by simp
  have retry: "k < 3 \<longrightarrow>
          pending (handle_popped rt st ev d p)
            = zadd (pending st)
                (d'\<lparr>error_message := Some (error_message_of e),
                    retry_count := Some (k + 1),
                    scheduled_at := Some (utcnow_retry ev + 1000000 * min 300 (2 ^ (k + 1 - 1)))\<rparr>)
                p
        \<and> processing (handle_popped rt st ev d p) = zrem (processing st) d
        \<and> dlq (handle_popped rt st ev d p) = dlq st
        \<and> completed (handle_popped rt st ev d p) = completed st
        \<and> failed (handle_popped rt st ev d p) = failed st
        \<and> metrics (handle_popped rt st ev d p) = metrics st"
    unfolding hp by (simp add: timedelta_seconds_def mult.commute)
  have dead: "\<not> k < 3 \<longrightarrow>
          dlq (handle_popped rt st ev d p) = d # dlq st
        \<and> metrics (handle_popped rt st ev d p) (current_hour (utcnow_metrics ev), ''operations_failed'')
            = metrics st (current_hour (utcnow_metrics ev), ''operations_failed'') + 1
        \<and> (\<forall>c. c \<noteq> (current_hour (utcnow_metrics ev), ''operations_failed'')
               \<longrightarrow> metrics (handle_popped rt st ev d p) c = metrics st c)
        \<and> pending (handle_popped rt st ev d p) = pending st
        \<and> processing (handle_popped rt st ev d p) = zrem (processing st) d
        \<and> completed (handle_popped rt st ev d p) = completed st
        \<and> failed (handle_popped rt st ev d p) = failed st"
    unfolding hp by (simp add: update_metrics_def)
  from keep retry dead show ?thesis by blast
qed

text \<open>
  The CREATE of the concrete inputs, rejected by the rate limiter. Popped at second 1
  without a retry count, it goes back to the pending tier for second 2, with one retry
  counted and no counter changed. Popped at second 3601 with three retries counted, it
  goes to the dead-letter tier, and the counter \<^verbatim>\<open>operations_failed\<close> of hour 1 becomes 1
  while that of hour 0 stays 0.
\<close>

theorem failed_dispatch_retries_witness:
  "\<forall>rt. pending (handle_popped rt sf_engine (env_at 1000000 rate_limited)
            (operation_data_of create_op) 5)
        = [((operation_data_of create_op)
              \<lparr>started_at := Some 1000000,
               error_message := Some ''Rate limit exceeded for provider sf'',
               retry_count := Some 1, scheduled_at := Some 2000000\<rparr>, 5)]
      \<and> dlq (handle_popped rt sf_engine (env_at 1000000 rate_limited)
            (operation_data_of create_op) 5) = []
      \<and> metrics (handle_popped rt sf_engine (env_at 1000000 rate_limited)
            (operation_data_of create_op) 5) (0, ''operations_failed'') = 0
      \<and> dlq (handle_popped rt sf_engine (env_at 3601000000 rate_limited)
            ((operation_data_of create_op)\<lparr>retry_count := Some 3\<rparr>) 5)
        = [(operation_data_of create_op)\<lparr>retry_count := Some 3\<rparr>]
      \<and> pending (handle_popped rt sf_engine (env_at 3601000000 rate_limited)
            ((operation_data_of create_op)\<lparr>retry_count := Some 3\<rparr>) 5) = []
      \<and> metrics (handle_popped rt sf_engine (env_at 3601000000 rate_limited)
            ((operation_data_of create_op)\<lparr>retry_count := Some 3\<rparr>) 5) (1, ''operations_failed'') = 1
      \<and> metrics (handle_popped rt sf_engine (env_at 3601000000 rate_limited)
            ((operation_data_of create_op)\<lparr>retry_count := Some 3\<rparr>) 5) (0, ''operations_failed'') = 0"
proof
  fix rt
  let ?d = "operation_data_of create_op" and ?ev = "env_at 1000000 rate_limited"
  let ?d3 = "(operation_data_of create_op)\<lparr>retry_count := Some 3\<rparr>"
  let ?ev3 = "env_at 3601000000 rate_limited"
  have tr: "\<exists>out. transform_record (transformers rt) full_contact
      (get_default_mappings ''salesforce'') ''internal_to_external'' = Inr out"
    by (simp add: transform_record_def get_default_mappings_def mk_mapping_def full_contact_def
          Let_def dict_get_def source_field_def target_field_def transform_value_def
          transformers_def format_email_def format_phone_def is_space_def is_digit_def
          lower_char_def strip_def last_segment_def)
  have a1: "\<not> scheduled_for_future ?ev ?d"
    by (simp add: scheduled_for_future_def operation_data_of_def create_op_def)
  have a2: "dispatch rt (providers sf_engine) ?ev ?d =
      (?d\<lparr>started_at := Some 1000000\<rparr>, Inl (RateLimitError ''Rate limit exceeded for provider sf''))"
    using tr
    by (auto simp: dispatch_def sf_engine_def add_provider_def new_engine_def sf_config_def
          operation_data_of_def create_op_def env_at_def rate_limited_def kwargs_of_def
          create_record_def Let_def)
  have a3: "(0::nat) = (case retry_count ?d of None \<Rightarrow> 0 | Some n \<Rightarrow> n)"
    by (simp add: operation_data_of_def create_op_def)
  have b1: "\<not> scheduled_for_future ?ev3 ?d3"
    by (simp add: scheduled_for_future_def operation_data_of_def create_op_def)
  have b2: "dispatch rt (providers sf_engine) ?ev3 ?d3 =
      (?d3\<lparr>started_at := Some 3601000000\<rparr>, Inl (RateLimitError ''Rate limit exceeded for provider sf''))"
    using tr
    by (auto simp: dispatch_def sf_engine_def add_provider_def new_engine_def sf_config_def
          operation_data_of_def create_op_def env_at_def rate_limited_def kwargs_of_def
          create_record_def Let_def)
  have b3: "(3::nat) = (case retry_count ?d3 of None \<Rightarrow> 0 | Some n \<Rightarrow> n)"
    by simp
  have empty: "pending sf_engine = []" "dlq sf_engine = []" "metrics sf_engine = (\<lambda>c. 0)"
    by (simp_all add: sf_engine_def add_provider_def new_engine_def)
  have msg: "error_message_of (RateLimitError ''Rate limit exceeded for provider sf'')
      = ''Rate limit exceeded for provider sf''"
    by (simp add: error_message_of_def is_api_error_def)
  have clock: "utcnow_retry ?ev = 1000000" "current_hour (utcnow_metrics ?ev3) = 1"
    by (simp_all add: env_at_def current_hour_def)
  from failed_dispatch_retries_or_dead_letters [OF a1 a2 a3, of 5]
  have r: "pending (handle_popped rt sf_engine ?ev ?d 5)
        = [(?d\<lparr>started_at := Some 1000000,
               error_message := Some ''Rate limit exceeded for provider sf'',
               retry_count := Some 1, scheduled_at := Some 2000000\<rparr>, 5)]"
      "dlq (handle_popped rt sf_engine ?ev ?d 5) = []"
      "metrics (handle_popped rt sf_engine ?ev ?d 5) (0, ''operations_failed'') = 0"
    by (simp_all add: empty msg clock zadd_def zrem_def)
  from failed_dispatch_retries_or_dead_letters [OF b1 b2 b3, of 5]
  have f: "dlq (handle_popped rt sf_engine ?ev3 ?d3 5) = [?d3]"
      "pending (handle_popped rt sf_engine ?ev3 ?d3 5) = []"
      "metrics (handle_popped rt sf_engine ?ev3 ?d3 5) (1, ''operations_failed'') = 1"
      "metrics (handle_popped rt sf_engine ?ev3 ?d3 5) (0, ''operations_failed'') = 0"
    by (simp_all add: empty clock)
  from r f show "pending (handle_popped rt sf_engine ?ev ?d 5)
        = [(?d\<lparr>started_at := Some 1000000,
               error_message := Some ''Rate limit exceeded for provider sf'',
               retry_count := Some 1, scheduled_at := Some 2000000\<rparr>, 5)]
      \<and> dlq (handle_popped rt sf_engine ?ev ?d 5) = []
      \<and> metrics (handle_popped rt sf_engine ?ev ?d 5) (0, ''operations_failed'') = 0
      \<and> dlq (handle_popped rt sf_engine ?ev3 ?d3 5) = [?d3]
      \<and> pending (handle_popped rt sf_engine ?ev3 ?d3 5) = []
      \<and> metrics (handle_popped rt sf_engine ?ev3 ?d3 5) (1, ''operations_failed'') = 1
      \<and> metrics (handle_popped rt sf_engine ?ev3 ?d3 5) (0, ''operations_failed'') = 0"
    by blast
qed

subsection \<open>Operations without a record identifier\<close>




















subsection \<open>A successful dispatch and the scheduled gate\<close>

lemma sf_transform:
  "\<exists>out. transform_record (transformers rt) full_contact
      (get_default_mappings ''salesforce'') ''internal_to_external'' = Inr out"
  by (simp add: transform_record_def get_default_mappings_def mk_mapping_def full_contact_def
        Let_def dict_get_def source_field_def target_field_def transform_value_def
        transformers_def format_email_def format_phone_def is_space_def is_digit_def
        lower_char_def strip_def last_segment_def)

lemma sf_dispatch_created:
  "dispatch rt (providers sf_engine) (env_at t created_201) (operation_data_of create_op) =
     ((operation_data_of create_op)
        \<lparr>started_at := Some t, completed_at := Some t,
         response_data := Some [(''id'', PStr ''x'')], external_id := Some (PStr ''x'')\<rparr>,
      Inr [(''id'', PStr ''x'')])"
  using sf_transform [of rt]
  by (auto simp: dispatch_def sf_engine_def add_provider_def new_engine_def sf_config_def
        operation_data_of_def create_op_def env_at_def created_201_def kwargs_of_def
        create_record_def Let_def)

lemma dispatch_success_fields:
  assumes "dispatch rt provs ev d = (d', Inr resp)"
  shows "completed_at d' = Some (utcnow_completed ev) \<and> response_data d' = Some resp
     \<and> external_id d'
         = (if operation d = CREATE \<and> resp \<noteq> [] then map_of resp ''id'' else external_id d)"
  using assms by (auto simp: dispatch_def Let_def split: option.splits sum.splits if_splits)

text \<open>
  C1, as the code has it. Let the popped entry \<open>d\<close> with score \<open>p\<close> be due and let its
  dispatch succeed with the response \<open>resp\<close>, leaving the dictionary \<open>d'\<close>. The worker
  removes the entry from the processing tier, pushes on the completed tier the entry
  \<open>d\<close> as it was popped, and adds one to the counter \<^verbatim>\<open>operations_completed\<close> of the
  hour; nothing else changes. The dictionary \<open>d'\<close> that \<^verbatim>\<open>_process_operation\<close> leaves
  has \<^verbatim>\<open>completed_at\<close> set to the completion time, \<^verbatim>\<open>response_data\<close> set to the
  response and, for a CREATE with a non-empty response, \<^verbatim>\<open>external_id\<close> set to the
  response's \<^verbatim>\<open>id\<close>; it is not what the completed tier receives.
\<close>

theorem successful_dispatch_pushes_popped_entry:
  assumes "\<not> scheduled_for_future ev d"
    and "dispatch rt (providers st) ev d = (d', Inr resp)"
  shows "handle_popped rt st ev d p =
           update_metrics
             (st\<lparr>processing := zrem (processing st) d, completed := d # completed st\<rparr>)
             (utcnow_metrics ev) ''operations_completed'' 1
       \<and> process_operation rt st ev d = (True, d', st)
       \<and> completed_at d' = Some (utcnow_completed ev)
       \<and> response_data d' = Some resp
       \<and> external_id d'
           = (if operation d = CREATE \<and> resp \<noteq> [] then map_of resp ''id'' else external_id d)"
proof -
  have po: "process_operation rt (st\<lparr>processing := zadd (processing st) d p\<rparr>) ev d =
      (True, d', st\<lparr>processing := zadd (processing st) d p\<rparr>)"
    using assms by (simp add: process_operation_def)
  have po': "process_operation rt st ev d = (True, d', st)"
    using assms by (simp add: process_operation_def)
  have hp: "handle_popped rt st ev d p =
      update_metrics
        (st\<lparr>processing := zrem (processing st) d, completed := d # completed st\<rparr>)
        (utcnow_metrics ev) ''operations_completed'' 1"
    by (simp add: handle_popped_def po Let_def zrem_zadd_same)
  from hp po' dispatch_success_fields [OF assms(2)] show ?thesis by simp
qed

text \<open>
  The CREATE of the concrete inputs, submitted at second 0 and popped at second 1, with
  a server that answers \<^verbatim>\<open>{"id": "x"}\<close>. The entry on the completed tier is the one
  submitted, with no \<^verbatim>\<open>completed_at\<close>, no \<^verbatim>\<open>response_data\<close> and no \<^verbatim>\<open>external_id\<close>, and
  the status query reports \<^verbatim>\<open>COMPLETED\<close> with no external identifier.
\<close>

theorem successful_dispatch_witness:
  "\<forall>rt. completed (worker_iteration rt (snd (submit_operation sf_engine 0 create_op))
                     (env_at 1000000 created_201))
          = [operation_data_of create_op]
      \<and> completed_at (operation_data_of create_op) = None
      \<and> response_data (operation_data_of create_op) = None
      \<and> external_id (operation_data_of create_op) = None
      \<and> external_id (fst (snd (process_operation rt sf_engine (env_at 1000000 created_201)
                                  (operation_data_of create_op))))
          = Some (PStr ''x'')
      \<and> map_option sr_status
          (get_operation_status
             (worker_iteration rt (snd (submit_operation sf_engine 0 create_op))
                (env_at 1000000 created_201)) ''op-1'')
          = Some COMPLETED
      \<and> map_option sr_external_id
          (get_operation_status
             (worker_iteration rt (snd (submit_operation sf_engine 0 create_op))
                (env_at 1000000 created_201)) ''op-1'')
          = Some None"
proof
  fix rt
  let ?d = "operation_data_of create_op" and ?ev = "env_at 1000000 created_201"
  let ?d' = "?d\<lparr>started_at := Some 1000000, completed_at := Some 1000000,
     response_data := Some [(''id'', PStr ''x'')], external_id := Some (PStr ''x'')\<rparr>"
  let ?st = "update_metrics (sf_engine\<lparr>pending := [(?d, 5)]\<rparr>) 0 ''operations_submitted'' 1"
  let ?run = "worker_iteration rt (snd (submit_operation sf_engine 0 create_op)) ?ev"
  have sub: "snd (submit_operation sf_engine 0 create_op) = ?st"
    by (simp add: submit_operation_def sf_engine_def add_provider_def new_engine_def
          sf_config_def create_op_def zadd_def zrem_def)
  have h1: "\<not> scheduled_for_future ?ev ?d"
    by (simp add: scheduled_for_future_def operation_data_of_def create_op_def)
  have prov: "providers (?st\<lparr>pending := []\<rparr>) = providers sf_engine"
    by (simp add: update_metrics_def)
  have h2: "dispatch rt (providers (?st\<lparr>pending := []\<rparr>)) ?ev ?d = (?d', Inr [(''id'', PStr ''x'')])"
    unfolding prov by (rule sf_dispatch_created)
  have h3: "dispatch rt (providers sf_engine) ?ev ?d = (?d', Inr [(''id'', PStr ''x'')])"
    by (rule sf_dispatch_created)
  have pop: "bzpopmin (pending ?st) = Some ((?d, 5), [])"
    by (simp add: update_metrics_def bzpopmin_single)
  have it: "worker_iteration rt ?st ?ev = handle_popped rt (?st\<lparr>pending := []\<rparr>) ?ev ?d 5"
    unfolding worker_iteration_def pop by simp
  from successful_dispatch_pushes_popped_entry [OF h1 h2, of 5]
  have hp: "handle_popped rt (?st\<lparr>pending := []\<rparr>) ?ev ?d 5 =
      update_metrics
        ((?st\<lparr>pending := []\<rparr>)
           \<lparr>processing := zrem (processing (?st\<lparr>pending := []\<rparr>)) ?d,
            completed := ?d # completed (?st\<lparr>pending := []\<rparr>)\<rparr>)
        (utcnow_metrics ?ev) ''operations_completed'' 1"
    by (rule conjunct1)
  have run: "?run =
      update_metrics
        ((?st\<lparr>pending := []\<rparr>)
           \<lparr>processing := zrem (processing (?st\<lparr>pending := []\<rparr>)) ?d,
            completed := ?d # completed (?st\<lparr>pending := []\<rparr>)\<rparr>)
        (utcnow_metrics ?ev) ''operations_completed'' 1"
    unfolding sub it hp by (rule refl)
  have empty: "pending sf_engine = []" "processing sf_engine = []" "completed sf_engine = []"
    by (simp_all add: sf_engine_def add_provider_def new_engine_def)
  have fields: "completed_at ?d = None" "response_data ?d = None" "external_id ?d = None"
      "op_id ?d = ''op-1''"
    by (simp_all add: operation_data_of_def create_op_def)
  have comp: "completed ?run = [?d]"
    unfolding run by (simp add: update_metrics_def empty)
  have pend: "pending ?run = []" "processing ?run = []"
    unfolding run by (simp_all add: update_metrics_def empty zrem_def)
  have status: "get_operation_status ?run ''op-1'' = Some (deserialize_sync_result ?d COMPLETED_QUEUE)"
    unfolding get_operation_status_def comp pend by (simp add: zrange_def fields)
  from successful_dispatch_pushes_popped_entry [OF h1 h3, of 5]
  have po: "process_operation rt sf_engine ?ev ?d = (True, ?d', sf_engine)"
    by simp
  have st: "sr_status (deserialize_sync_result ?d COMPLETED_QUEUE) = COMPLETED"
    by (simp add: deserialize_sync_result_def status_mapping_def PENDING_QUEUE_def
          PROCESSING_QUEUE_def COMPLETED_QUEUE_def FAILED_QUEUE_def DLQ_def)
  have ext: "sr_external_id (deserialize_sync_result ?d COMPLETED_QUEUE) = None"
    by (simp add: deserialize_sync_result_def fields)
  show "completed ?run = [?d]
      \<and> completed_at ?d = None \<and> response_data ?d = None \<and> external_id ?d = None
      \<and> external_id (fst (snd (process_operation rt sf_engine ?ev ?d))) = Some (PStr ''x'')
      \<and> map_option sr_status (get_operation_status ?run ''op-1'') = Some COMPLETED
      \<and> map_option sr_external_id (get_operation_status ?run ''op-1'') = Some None"
    unfolding status po by (simp add: comp fields st ext)
qed

text \<open>
  C4, as the code has it. Let the popped entry \<open>d\<close> with score \<open>p\<close> be scheduled for
  the future. \<^verbatim>\<open>_process_operation\<close> adds it back to the pending tier, with the
  priority the entry records, dispatches nothing and returns true; the worker then
  removes it from the processing tier and, as for a success, pushes it on the completed
  tier and adds one to the counter \<^verbatim>\<open>operations_completed\<close> of the hour. The failed and
  dead-letter tiers do not change.
\<close>

theorem future_entry_is_pushed_on_completed:
  assumes "scheduled_for_future ev d"
  shows "process_operation rt st ev d = (True, d, st\<lparr>pending := zadd (pending st) d (priority d)\<rparr>)
       \<and> handle_popped rt st ev d p =
           update_metrics
             (st\<lparr>pending := zadd (pending st) d (priority d),
                 processing := zrem (processing st) d,
                 completed := d # completed st\<rparr>)
             (utcnow_metrics ev) ''operations_completed'' 1
       \<and> completed (handle_popped rt st ev d p) = d # completed st
       \<and> metrics (handle_popped rt st ev d p) (current_hour (utcnow_metrics ev), ''operations_completed'')
           = metrics st (current_hour (utcnow_metrics ev), ''operations_completed'') + 1
       \<and> failed (handle_popped rt st ev d p) = failed st
       \<and> dlq (handle_popped rt st ev d p) = dlq st"
proof -
  have po: "\<And>s. process_operation rt s ev d = (True, d, s\<lparr>pending := zadd (pending s) d (priority d)\<rparr>)"
    using assms by (simp add: process_operation_def)
  have hp: "handle_popped rt st ev d p =
      update_metrics
        (st\<lparr>pending := zadd (pending st) d (priority d),
            processing := zrem (processing st) d,
            completed := d # completed st\<rparr>)
        (utcnow_metrics ev) ''operations_completed'' 1"
    by (simp add: handle_popped_def po Let_def zrem_zadd_same)
  show ?thesis
    unfolding hp by (simp add: po update_metrics_def)
qed

text \<open>
  The CREATE scheduled for second 2, submitted at second 0 and popped at second 1: it
  is back on the pending tier, and it is on the completed tier, counted as completed.
\<close>

theorem future_entry_witness:
  "\<forall>rt. pending (worker_iteration rt (snd (submit_operation sf_engine 0 later_op))
                   (env_at 1000000 created_201))
          = [(operation_data_of later_op, 5)]
      \<and> processing (worker_iteration rt (snd (submit_operation sf_engine 0 later_op))
                   (env_at 1000000 created_201)) = []
      \<and> completed (worker_iteration rt (snd (submit_operation sf_engine 0 later_op))
                   (env_at 1000000 created_201))
          = [operation_data_of later_op]
      \<and> metrics (worker_iteration rt (snd (submit_operation sf_engine 0 later_op))
                   (env_at 1000000 created_201)) (0, ''operations_completed'') = 1"
proof
  fix rt
  let ?d = "operation_data_of later_op" and ?ev = "env_at 1000000 created_201"
  let ?st = "update_metrics (sf_engine\<lparr>pending := [(?d, 5)]\<rparr>) 0 ''operations_submitted'' 1"
  let ?run = "worker_iteration rt (snd (submit_operation sf_engine 0 later_op)) ?ev"
  have sub: "snd (submit_operation sf_engine 0 later_op) = ?st"
    by (simp add: submit_operation_def sf_engine_def add_provider_def new_engine_def
          sf_config_def later_op_def create_op_def zadd_def zrem_def)
  have h1: "scheduled_for_future ?ev ?d"
    by (simp add: scheduled_for_future_def operation_data_of_def later_op_def create_op_def
          env_at_def)
  have pop: "bzpopmin (pending ?st) = Some ((?d, 5), [])"
    by (simp add: update_metrics_def bzpopmin_single)
  have it: "worker_iteration rt ?st ?ev = handle_popped rt (?st\<lparr>pending := []\<rparr>) ?ev ?d 5"
    unfolding worker_iteration_def pop by simp
  from future_entry_is_pushed_on_completed [OF h1, of rt "?st\<lparr>pending := []\<rparr>" 5]
  have hp: "handle_popped rt (?st\<lparr>pending := []\<rparr>) ?ev ?d 5 =
      update_metrics
        ((?st\<lparr>pending := []\<rparr>)
           \<lparr>pending := zadd (pending (?st\<lparr>pending := []\<rparr>)) ?d (priority ?d),
            processing := zrem (processing (?st\<lparr>pending := []\<rparr>)) ?d,
            completed := ?d # completed (?st\<lparr>pending := []\<rparr>)\<rparr>)
        (utcnow_metrics ?ev) ''operations_completed'' 1"
    by simp
  have run: "?run =
      update_metrics
        ((?st\<lparr>pending := []\<rparr>)
           \<lparr>pending := zadd (pending (?st\<lparr>pending := []\<rparr>)) ?d (priority ?d),
            processing := zrem (processing (?st\<lparr>pending := []\<rparr>)) ?d,
            completed := ?d # completed (?st\<lparr>pending := []\<rparr>)\<rparr>)
        (utcnow_metrics ?ev) ''operations_completed'' 1"
    unfolding sub it hp by (rule refl)
  have empty: "processing sf_engine = []" "completed sf_engine = []"
      "metrics sf_engine = (\<lambda>k. 0)"
    by (simp_all add: sf_engine_def add_provider_def new_engine_def)
  have prio: "priority ?d = 5"
    by (simp add: operation_data_of_def later_op_def create_op_def)
  show "pending ?run = [(?d, 5)] \<and> processing ?run = [] \<and> completed ?run = [?d]
      \<and> metrics ?run (0, ''operations_completed'') = 1"
    unfolding run
    by (simp add: update_metrics_def empty prio zadd_def zrem_def env_at_def current_hour_def)
qed

end
